theory Spec2Isabelle
  imports Complex_Main "HOL-Library.AList"
begin

section \<open>Python values, errors and the library the script calls\<close>

text \<open>
  The script \<^verbatim>\<open>examples/generate_sample_report.py\<close> builds nested Python dicts and
  lists of strings, integers, floats and booleans.  A dict is an association list in
  insertion order (its keys are strings throughout the script); a float is embedded as
  a rational number, so all arithmetic below is exact.
\<close>

datatype py_error =
  ValueError | IndexError | KeyError | TypeError | AttributeError | ZeroDivisionError | OSError

datatype pyval =
    PInt int
  | PFloat rat
  | PStr string
  | PBool bool
  | PList "pyval list"
  | PDict "(string \<times> pyval) list"

text \<open>
  Functions of the Python standard library that only render or parse text.  They are
  total and pure; the script's behaviour is stated for every choice of them.
\<close>

record pylib =
  str_int :: "int \<Rightarrow> string"
  str_float :: "rat \<Rightarrow> string"
  format_08x :: "int \<Rightarrow> string"
  isoformat :: "int \<Rightarrow> string"
  uuid_hex :: "nat \<Rightarrow> string"
  parse_int :: "string \<Rightarrow> int option"
  parse_float :: "string \<Rightarrow> rat option"
  json_dumps :: "pyval \<Rightarrow> string"

subsection \<open>The tape: results of the nondeterministic library calls\<close>

text \<open>
  Every call of \<^verbatim>\<open>random\<close>, \<^verbatim>\<open>uuid.uuid4\<close> and \<^verbatim>\<open>datetime.now\<close> consumes the next raw
  number of a tape.  A tape is given by a finite prefix; past the prefix every raw number
  is 0.  A run makes finitely many calls, so every run is the run on some tape.
\<close>

type_synonym tape = "nat list"

type_synonym 'a gen = "tape \<Rightarrow> py_error + ('a \<times> tape)"

fun draw :: "tape \<Rightarrow> nat \<times> tape" where
  "draw [] = (0, [])"
| "draw (r # rs) = (r, rs)"

definition returnG :: "'a \<Rightarrow> 'a gen" where
  "returnG x = (\<lambda>g. Inr (x, g))"

definition bindG :: "'a gen \<Rightarrow> ('a \<Rightarrow> 'b gen) \<Rightarrow> 'b gen" where
  "bindG m f = (\<lambda>g. case m g of Inl e \<Rightarrow> Inl e | Inr (x, g') \<Rightarrow> f x g')"

definition liftG :: "py_error + 'a \<Rightarrow> 'a gen" where
  "liftG r = (\<lambda>g. case r of Inl e \<Rightarrow> Inl e | Inr x \<Rightarrow> Inr (x, g))"

definition bindE :: "py_error + 'a \<Rightarrow> ('a \<Rightarrow> py_error + 'b) \<Rightarrow> py_error + 'b" where
  "bindE r f = (case r of Inl e \<Rightarrow> Inl e | Inr x \<Rightarrow> f x)"

text \<open>\<^verbatim>\<open>for x in xs: body\<close>, threading the loop's variables as a state.\<close>

fun for_each :: "'a list \<Rightarrow> ('a \<Rightarrow> 's \<Rightarrow> 's gen) \<Rightarrow> 's \<Rightarrow> 's gen" where
  "for_each [] body s = returnG s"
| "for_each (x # xs) body s = bindG (body x s) (for_each xs body)"

fun for_eachE :: "'a list \<Rightarrow> ('a \<Rightarrow> 's \<Rightarrow> py_error + 's) \<Rightarrow> 's \<Rightarrow> py_error + 's" where
  "for_eachE [] body s = Inr s"
| "for_eachE (x # xs) body s = bindE (body x s) (for_eachE xs body)"

subsection \<open>The \<^verbatim>\<open>random\<close> module, \<^verbatim>\<open>uuid4\<close> and the clock\<close>

text \<open>\<^verbatim>\<open>random.randint(a, b)\<close>: \<^verbatim>\<open>ValueError\<close> on an empty range.\<close>

definition randint :: "int \<Rightarrow> int \<Rightarrow> int gen" where
  "randint a b = (\<lambda>g. if b < a then Inl ValueError
     else (case draw g of (r, g') \<Rightarrow> Inr (a + int (r mod nat (b - a + 1)), g')))"

text \<open>\<^verbatim>\<open>random.choice(xs)\<close>: \<^verbatim>\<open>IndexError\<close> on an empty sequence.\<close>

definition choice :: "'a list \<Rightarrow> 'a gen" where
  "choice xs = (\<lambda>g. if xs = [] then Inl IndexError
     else (case draw g of (r, g') \<Rightarrow> Inr (xs ! (r mod length xs), g')))"

text \<open>\<^verbatim>\<open>random.random()\<close>: a multiple of \<open>2\<^sup>-\<^sup>5\<^sup>3\<close> in \<open>[0, 1)\<close>.\<close>

definition random_random :: "rat gen" where
  "random_random = (\<lambda>g. case draw g of (r, g') \<Rightarrow>
     Inr (of_nat (r mod 2 ^ 53) / 2 ^ 53, g'))"

text \<open>\<^verbatim>\<open>random.uniform(a, b)\<close> is \<^verbatim>\<open>a + (b - a) * random()\<close>.\<close>

definition uniform :: "rat \<Rightarrow> rat \<Rightarrow> rat gen" where
  "uniform a b = bindG random_random (\<lambda>u. returnG (a + (b - a) * u))"

text \<open>
  \<^verbatim>\<open>random.sample(population, k)\<close>, as CPython selects from a population of at most 21
  elements (the script's populations have 3 and 7): \<open>k\<close> times, pick a position of the
  pool and move the pool's last element into it.
\<close>

fun sample_loop :: "'a list \<Rightarrow> nat \<Rightarrow> tape \<Rightarrow> 'a list \<times> tape" where
  "sample_loop pool 0 g = ([], g)"
| "sample_loop pool (Suc k) g =
     (case draw g of (r, g') \<Rightarrow>
        (let n = length pool; j = r mod n in
         (case sample_loop (butlast (pool[j := pool ! (n - 1)])) k g' of
            (ys, g'') \<Rightarrow> (pool ! j # ys, g''))))"

definition sample :: "'a list \<Rightarrow> int \<Rightarrow> 'a list gen" where
  "sample population k = (\<lambda>g. if k < 0 \<or> int (length population) < k then Inl ValueError
     else Inr (sample_loop population (nat k) g))"

text \<open>\<^verbatim>\<open>uuid.uuid4().hex[:8]\<close>.\<close>

definition uuid4_hex8 :: "pylib \<Rightarrow> string gen" where
  "uuid4_hex8 L = (\<lambda>g. case draw g of (r, g') \<Rightarrow> Inr (take 8 (uuid_hex L r), g'))"

text \<open>\<^verbatim>\<open>datetime.datetime.now()\<close>, as microseconds since the epoch.\<close>

definition datetime_now :: "int gen" where
  "datetime_now = (\<lambda>g. case draw g of (r, g') \<Rightarrow> Inr (int r, g'))"

definition timedelta_days :: "int \<Rightarrow> int" where
  "timedelta_days d = d * 86400000000"

subsection \<open>Dicts, lists and arithmetic on Python values\<close>

text \<open>\<^verbatim>\<open>d[k]\<close> for a string key.\<close>

fun getitem :: "pyval \<Rightarrow> string \<Rightarrow> py_error + pyval" where
  "getitem (PDict d) k = (case map_of d k of None \<Rightarrow> Inl KeyError | Some v \<Rightarrow> Inr v)"
| "getitem _ k = Inl TypeError"

text \<open>\<^verbatim>\<open>d[k] = v\<close>: an existing key keeps its position, a new one goes last.\<close>

fun setitem :: "pyval \<Rightarrow> string \<Rightarrow> pyval \<Rightarrow> py_error + pyval" where
  "setitem (PDict d) k v = Inr (PDict (AList.update k v d))"
| "setitem _ k v = Inl TypeError"

text \<open>\<^verbatim>\<open>k in d\<close> for a dict, and the substring test for two strings.\<close>

fun is_prefix :: "string \<Rightarrow> string \<Rightarrow> bool" where
  "is_prefix [] s = True"
| "is_prefix (c # p) [] = False"
| "is_prefix (c # p) (d # s) = (c = d \<and> is_prefix p s)"

fun is_substring :: "string \<Rightarrow> string \<Rightarrow> bool" where
  "is_substring p [] = (p = [])"
| "is_substring p (c # s) = (is_prefix p (c # s) \<or> is_substring p s)"

fun contains :: "pyval \<Rightarrow> string \<Rightarrow> py_error + bool" where
  "contains (PDict d) k = Inr (map_of d k \<noteq> None)"
| "contains (PStr s) k = Inr (is_substring k s)"
| "contains (PList xs) k = Inr (PStr k \<in> set xs)"
| "contains _ k = Inl TypeError"

text \<open>
  \<^verbatim>\<open>d.get(key, default)\<close>.  The dicts of the script have string keys only, so a key
  that is a number or a boolean is absent; a list or a dict is not hashable.
\<close>

fun dict_get :: "pyval \<Rightarrow> pyval \<Rightarrow> pyval \<Rightarrow> py_error + pyval" where
  "dict_get (PDict d) (PStr k) dflt = Inr (case map_of d k of None \<Rightarrow> dflt | Some v \<Rightarrow> v)"
| "dict_get (PDict d) (PList xs) dflt = Inl TypeError"
| "dict_get (PDict d) (PDict e) dflt = Inl TypeError"
| "dict_get (PDict d) key dflt = Inr dflt"
| "dict_get _ key dflt = Inl AttributeError"

text \<open>\<^verbatim>\<open>d.update(e)\<close> assigns the items of \<open>e\<close> in order.\<close>

fun dict_update :: "pyval \<Rightarrow> pyval \<Rightarrow> py_error + pyval" where
  "dict_update (PDict d) (PDict e) = Inr (PDict (fold (\<lambda>(k, v). AList.update k v) e d))"
| "dict_update (PDict d) _ = Inl TypeError"
| "dict_update _ _ = Inl AttributeError"

fun dict_keys :: "pyval \<Rightarrow> py_error + string list" where
  "dict_keys (PDict d) = Inr (map fst d)"
| "dict_keys _ = Inl AttributeError"

fun dict_values :: "pyval \<Rightarrow> py_error + pyval list" where
  "dict_values (PDict d) = Inr (map snd d)"
| "dict_values _ = Inl AttributeError"

fun list_append :: "pyval \<Rightarrow> pyval \<Rightarrow> py_error + pyval" where
  "list_append (PList xs) x = Inr (PList (xs @ [x]))"
| "list_append _ x = Inl AttributeError"

fun py_len :: "pyval \<Rightarrow> py_error + int" where
  "py_len (PList xs) = Inr (int (length xs))"
| "py_len (PDict d) = Inr (int (length d))"
| "py_len (PStr s) = Inr (int (length s))"
| "py_len _ = Inl TypeError"

fun list_items :: "pyval \<Rightarrow> py_error + pyval list" where
  "list_items (PList xs) = Inr xs"
| "list_items (PDict d) = Inr (map (PStr \<circ> fst) d)"
| "list_items (PStr s) = Inr (map (\<lambda>c. PStr [c]) s)"
| "list_items _ = Inl TypeError"

fun str_value :: "pyval \<Rightarrow> py_error + string" where
  "str_value (PStr s) = Inr s"
| "str_value _ = Inl TypeError"

text \<open>
  The object reached from \<open>v\<close> by the keys \<open>ks\<close> is replaced by \<open>f\<close> of it:
  \<^verbatim>\<open>v[k1][k2].method(...)\<close> or \<^verbatim>\<open>v[k1][k2][k] = ...\<close> on nested dicts.
\<close>

fun modify_at :: "string list \<Rightarrow> (pyval \<Rightarrow> py_error + pyval) \<Rightarrow> pyval \<Rightarrow> py_error + pyval" where
  "modify_at [] f v = f v"
| "modify_at (k # ks) f v =
     bindE (getitem v k) (\<lambda>w. bindE (modify_at ks f w) (\<lambda>w'. setitem v k w'))"

text \<open>Numbers: \<^verbatim>\<open>bool\<close> is a subtype of \<^verbatim>\<open>int\<close>; an operation with a float is a float.\<close>

datatype number = NInt int | NFloat rat

fun as_number :: "pyval \<Rightarrow> number option" where
  "as_number (PInt i) = Some (NInt i)"
| "as_number (PBool b) = Some (NInt (if b then 1 else 0))"
| "as_number (PFloat x) = Some (NFloat x)"
| "as_number _ = None"

fun to_rat :: "number \<Rightarrow> rat" where
  "to_rat (NInt i) = of_int i"
| "to_rat (NFloat x) = x"

fun num_add :: "number \<Rightarrow> number \<Rightarrow> pyval" where
  "num_add (NInt a) (NInt b) = PInt (a + b)"
| "num_add a b = PFloat (to_rat a + to_rat b)"

fun num_mul :: "number \<Rightarrow> number \<Rightarrow> pyval" where
  "num_mul (NInt a) (NInt b) = PInt (a * b)"
| "num_mul a b = PFloat (to_rat a * to_rat b)"

fun py_add :: "pyval \<Rightarrow> pyval \<Rightarrow> py_error + pyval" where
  "py_add (PStr a) (PStr b) = Inr (PStr (a @ b))"
| "py_add (PList a) (PList b) = Inr (PList (a @ b))"
| "py_add a b = (case (as_number a, as_number b) of
     (Some x, Some y) \<Rightarrow> Inr (num_add x y) | _ \<Rightarrow> Inl TypeError)"

fun py_repeat :: "pyval \<Rightarrow> int \<Rightarrow> pyval" where
  "py_repeat (PStr s) n = PStr (concat (replicate (nat n) s))"
| "py_repeat (PList xs) n = PList (concat (replicate (nat n) xs))"
| "py_repeat v n = v"

fun is_sequence :: "pyval \<Rightarrow> bool" where
  "is_sequence (PStr s) = True"
| "is_sequence (PList xs) = True"
| "is_sequence _ = False"

definition py_mul :: "pyval \<Rightarrow> pyval \<Rightarrow> py_error + pyval" where
  "py_mul a b = (case (as_number a, as_number b) of
       (Some x, Some y) \<Rightarrow> Inr (num_mul x y)
     | (None, Some (NInt n)) \<Rightarrow> if is_sequence a then Inr (py_repeat a n) else Inl TypeError
     | (Some (NInt n), None) \<Rightarrow> if is_sequence b then Inr (py_repeat b n) else Inl TypeError
     | _ \<Rightarrow> Inl TypeError)"

text \<open>\<^verbatim>\<open>a / b\<close> on numbers.\<close>

definition truediv :: "rat \<Rightarrow> rat \<Rightarrow> py_error + rat" where
  "truediv a b = (if b = 0 then Inl ZeroDivisionError else Inr (a / b))"

definition py_truediv :: "pyval \<Rightarrow> pyval \<Rightarrow> py_error + pyval" where
  "py_truediv a b = (case (as_number a, as_number b) of
       (Some x, Some y) \<Rightarrow> bindE (truediv (to_rat x) (to_rat y)) (\<lambda>q. Inr (PFloat q))
     | _ \<Rightarrow> Inl TypeError)"

text \<open>\<^verbatim>\<open>float(v)\<close> and \<^verbatim>\<open>int(v)\<close>; \<^verbatim>\<open>int\<close> of a float truncates towards zero.\<close>

definition py_trunc :: "rat \<Rightarrow> int" where
  "py_trunc x = (if 0 \<le> x then \<lfloor>x\<rfloor> else \<lceil>x\<rceil>)"

fun py_float :: "pylib \<Rightarrow> pyval \<Rightarrow> py_error + pyval" where
  "py_float L (PStr s) = (case parse_float L s of None \<Rightarrow> Inl ValueError | Some x \<Rightarrow> Inr (PFloat x))"
| "py_float L v = (case as_number v of None \<Rightarrow> Inl TypeError | Some x \<Rightarrow> Inr (PFloat (to_rat x)))"

fun py_int :: "pylib \<Rightarrow> pyval \<Rightarrow> py_error + pyval" where
  "py_int L (PStr s) = (case parse_int L s of None \<Rightarrow> Inl ValueError | Some i \<Rightarrow> Inr (PInt i))"
| "py_int L v = (case as_number v of
       None \<Rightarrow> Inl TypeError
     | Some (NInt i) \<Rightarrow> Inr (PInt i)
     | Some (NFloat x) \<Rightarrow> Inr (PInt (py_trunc x)))"

text \<open>\<^verbatim>\<open>round(x, n)\<close> on an exact number: the nearest multiple of \<open>10\<^sup>-\<^sup>n\<close>, ties to even.\<close>

definition round_half_even :: "rat \<Rightarrow> int" where
  "round_half_even y =
     (let f = \<lfloor>y\<rfloor>; d = y - of_int f in
      if d < 1 / 2 then f else if 1 / 2 < d then f + 1 else if even f then f else f + 1)"

definition py_round :: "rat \<Rightarrow> nat \<Rightarrow> rat" where
  "py_round x n = of_int (round_half_even (x * 10 ^ n)) / 10 ^ n"

subsection \<open>String methods\<close>

definition lower_char :: "char \<Rightarrow> char" where
  "lower_char c = (if c \<in> set ''ABCDEFGHIJKLMNOPQRSTUVWXYZ''
     then char_of (of_char c + (32 :: nat)) else c)"

definition lower :: "string \<Rightarrow> string" where
  "lower s = map lower_char s"

text \<open>\<^verbatim>\<open>s.replace(a, b)\<close> for one-character \<open>a\<close> and \<open>b\<close>.\<close>

definition replace_char :: "char \<Rightarrow> char \<Rightarrow> string \<Rightarrow> string" where
  "replace_char a b s = map (\<lambda>c. if c = a then b else c) s"

definition zfill :: "nat \<Rightarrow> string \<Rightarrow> string" where
  "zfill n s = (case s of
       c # t \<Rightarrow> if c = CHR ''+'' \<or> c = CHR ''-''
                then c # replicate (n - length s) CHR ''0'' @ t
                else replicate (n - length s) CHR ''0'' @ s
     | [] \<Rightarrow> replicate n CHR ''0'')"

section \<open>The script\<close>

subsection \<open>\<^verbatim>\<open>generate_resource_name\<close>\<close>

definition generate_resource_name :: "string \<Rightarrow> string gen" where
  "generate_resource_name resource_type =
     (if resource_type = ''EC2 Instance'' then returnG ''app-server''
      else if resource_type = ''RDS Instance'' then
        (let engines = [''mysql'', ''postgres'', ''aurora-postgresql''] in
         bindG (choice engines) (\<lambda>engine. returnG (engine @ ''-db'')))
      else if resource_type = ''DynamoDB Table'' then returnG ''user-data''
      else if resource_type = ''EBS Volume'' then returnG ''data-volume''
      else if resource_type = ''EBS Snapshot'' then returnG ''backup''
      else if resource_type = ''Elastic IP'' then returnG ''static-ip''
      else if resource_type = ''ELB'' then returnG ''load-balancer''
      else if resource_type = ''IAM Role'' then returnG ''service-role''
      else if resource_type = ''IAM User'' then returnG ''system-user''
      else if resource_type = ''OpenSearch Domain'' then returnG ''search-cluster''
      else returnG ''resource'')"

subsection \<open>\<^verbatim>\<open>calculate_resource_costs\<close>\<close>

text \<open>\<^verbatim>\<open>costs[dst] = costs[src] * c\<close> and \<^verbatim>\<open>costs[dst] = costs[src] / c\<close>.\<close>

definition assign_mul :: "pyval \<Rightarrow> string \<Rightarrow> string \<Rightarrow> pyval \<Rightarrow> py_error + pyval" where
  "assign_mul costs dst src c =
     bindE (getitem costs src) (\<lambda>v. bindE (py_mul v c) (\<lambda>w. setitem costs dst w))"

definition assign_div :: "pyval \<Rightarrow> string \<Rightarrow> string \<Rightarrow> pyval \<Rightarrow> py_error + pyval" where
  "assign_div costs dst src c =
     bindE (getitem costs src) (\<lambda>v. bindE (py_truediv v c) (\<lambda>w. setitem costs dst w))"

definition zero_costs :: pyval where
  "zero_costs = PDict [(''hourly'', PFloat 0), (''daily'', PFloat 0), (''monthly'', PFloat 0),
     (''yearly'', PFloat 0), (''lifetime'', PFloat 0)]"

text \<open>The branch of the \<^verbatim>\<open>if\<close>/\<^verbatim>\<open>elif\<close> chain: hourly, daily and monthly costs.\<close>

definition type_costs :: "pylib \<Rightarrow> string \<Rightarrow> pyval \<Rightarrow> pyval \<Rightarrow> py_error + pyval" where
  "type_costs L resource_type details costs =
     (if resource_type = ''EC2 Instance'' then
        bindE (dict_get details (PStr ''InstanceType'') (PStr ''t3.micro'')) (\<lambda>instance_type.
        let hourly_rates = PDict [
              (''t3.micro'', PFloat 0.0104),
              (''t3.small'', PFloat 0.0208),
              (''t3.medium'', PFloat 0.0416),
              (''t3.large'', PFloat 0.0832),
              (''r5.xlarge'', PFloat 0.252),
              (''r5.2xlarge'', PFloat 0.504),
              (''r5.4xlarge'', PFloat 1.008)] in
        bindE (dict_get hourly_rates instance_type (PFloat 0.0416)) (\<lambda>rate.
        bindE (py_truediv rate (PInt 2)) (\<lambda>hourly.
        bindE (setitem costs ''hourly'' hourly) (\<lambda>costs.
        bindE (assign_mul costs ''daily'' ''hourly'' (PInt 24)) (\<lambda>costs.
        assign_mul costs ''monthly'' ''daily'' (PFloat 30.44))))))
      else if resource_type = ''RDS Instance'' then
        bindE (dict_get details (PStr ''DBInstanceClass'') (PStr ''db.t3.medium'')) (\<lambda>instance_class.
        let hourly_rates = PDict [
              (''db.t3.micro'', PFloat 0.017),
              (''db.t3.small'', PFloat 0.034),
              (''db.t3.medium'', PFloat 0.068),
              (''db.r5.large'', PFloat 0.29),
              (''db.r5.xlarge'', PFloat 0.58)] in
        bindE (dict_get hourly_rates instance_class (PFloat 0.068)) (\<lambda>rate.
        bindE (py_truediv rate (PInt 3)) (\<lambda>hourly.
        bindE (setitem costs ''hourly'' hourly) (\<lambda>costs.
        bindE (assign_mul costs ''daily'' ''hourly'' (PInt 24)) (\<lambda>costs.
        assign_mul costs ''monthly'' ''daily'' (PFloat 30.44))))))
      else if resource_type = ''EBS Volume'' then
        bindE (dict_get details (PStr ''Size'') (PInt 20)) (\<lambda>size.
        bindE (py_float L size) (\<lambda>size_gb.
        bindE (dict_get details (PStr ''VolumeType'') (PStr ''gp3'')) (\<lambda>volume_type.
        let price_per_gb = (if volume_type = PStr ''gp2'' then PFloat 0.10 else PFloat 0.08) in
        bindE (py_mul size_gb price_per_gb) (\<lambda>monthly.
        bindE (setitem costs ''monthly'' monthly) (\<lambda>costs.
        bindE (assign_div costs ''daily'' ''monthly'' (PFloat 30.44)) (\<lambda>costs.
        assign_div costs ''hourly'' ''daily'' (PInt 24)))))))
      else if resource_type = ''EBS Snapshot'' then
        bindE (dict_get details (PStr ''VolumeSize'') (PInt 20)) (\<lambda>size.
        bindE (py_float L size) (\<lambda>size_gb.
        bindE (py_mul size_gb (PFloat 0.05)) (\<lambda>monthly.
        bindE (setitem costs ''monthly'' monthly) (\<lambda>costs.
        bindE (assign_div costs ''daily'' ''monthly'' (PFloat 30.44)) (\<lambda>costs.
        assign_div costs ''hourly'' ''daily'' (PInt 24))))))
      else if resource_type = ''Elastic IP'' then
        bindE (setitem costs ''hourly'' (PFloat 0.005)) (\<lambda>costs.
        bindE (assign_mul costs ''daily'' ''hourly'' (PInt 24)) (\<lambda>costs.
        assign_mul costs ''monthly'' ''daily'' (PFloat 30.44)))
      else if resource_type = ''DynamoDB Table'' then
        bindE (dict_get details (PStr ''ProvisionedThroughput'') (PDict [])) (\<lambda>throughput.
        bindE (dict_get throughput (PStr ''ReadCapacityUnits'') (PInt 5)) (\<lambda>units.
        bindE (py_int L units) (\<lambda>read_capacity.
        bindE (dict_get details (PStr ''ProvisionedThroughput'') (PDict [])) (\<lambda>throughput.
        bindE (dict_get throughput (PStr ''WriteCapacityUnits'') (PInt 5)) (\<lambda>units.
        bindE (py_int L units) (\<lambda>write_capacity.
        bindE (py_mul read_capacity (PFloat 0.00013)) (\<lambda>read_cost.
        bindE (py_mul write_capacity (PFloat 0.00065)) (\<lambda>write_cost.
        bindE (py_add read_cost write_cost) (\<lambda>hourly.
        bindE (setitem costs ''hourly'' hourly) (\<lambda>costs.
        bindE (assign_mul costs ''daily'' ''hourly'' (PInt 24)) (\<lambda>costs.
        assign_mul costs ''monthly'' ''daily'' (PFloat 30.44))))))))))))
      else if resource_type = ''ELB'' then
        bindE (setitem costs ''hourly'' (PFloat 0.0225)) (\<lambda>costs.
        bindE (assign_mul costs ''daily'' ''hourly'' (PInt 24)) (\<lambda>costs.
        assign_mul costs ''monthly'' ''daily'' (PFloat 30.44)))
      else if resource_type = ''OpenSearch Domain'' then
        bindE (dict_get details (PStr ''InstanceType'') (PStr ''t3.small.search'')) (\<lambda>instance_type.
        let hourly_rates = PDict [
              (''t3.small.search'', PFloat 0.036),
              (''t3.medium.search'', PFloat 0.073),
              (''r5.large.search'', PFloat 0.186)] in
        bindE (dict_get hourly_rates instance_type (PFloat 0.036)) (\<lambda>rate.
        bindE (py_truediv rate (PInt 2)) (\<lambda>hourly.
        bindE (setitem costs ''hourly'' hourly) (\<lambda>costs.
        bindE (assign_mul costs ''daily'' ''hourly'' (PInt 24)) (\<lambda>costs.
        assign_mul costs ''monthly'' ''daily'' (PFloat 30.44))))))
      else Inr costs)"

definition calculate_resource_costs :: "pylib \<Rightarrow> string \<Rightarrow> pyval \<Rightarrow> pyval gen" where
  "calculate_resource_costs L resource_type details =
     (let costs = zero_costs in
      bindG (liftG (type_costs L resource_type details costs)) (\<lambda>costs.
      bindG (liftG (assign_mul costs ''yearly'' ''monthly'' (PInt 12))) (\<lambda>costs.
      bindG (liftG (getitem costs ''yearly'')) (\<lambda>yearly.
      bindG (randint (- 1) 3) (\<lambda>years.
      bindG (liftG (py_mul yearly (PInt years))) (\<lambda>lifetime.
      bindG (liftG (setitem costs ''lifetime'' lifetime)) (\<lambda>costs.
      returnG costs)))))))"

subsection \<open>\<^verbatim>\<open>generate_resource_reasons\<close>\<close>

text \<open>The \<^verbatim>\<open>if\<close>/\<^verbatim>\<open>elif\<close> chain that extends \<^verbatim>\<open>reasons\<close>.\<close>

definition type_reasons ::
  "pylib \<Rightarrow> string \<Rightarrow> int \<Rightarrow> rat \<Rightarrow> rat \<Rightarrow> rat \<Rightarrow> string list \<Rightarrow> string list gen" where
  "type_reasons L resource_type days_ago cpu_util memory_util network_util reasons =
     (if resource_type = ''EC2 Instance'' then (
        returnG (reasons @ [
            ''Low CPU utilization (average '' @ str_float L cpu_util @ ''%) in the last '' @ str_int L days_ago @ '' days'',
            ''Low memory utilization (average '' @ str_float L memory_util @ ''%)'',
            ''Minimal network traffic ('' @ str_float L network_util @ '' KB/s average)'']))
     else if resource_type = ''RDS Instance'' then (
        bindG (randint 0 5) (\<lambda>connections.
        bindG (uniform 5 20) (\<lambda>u.
        let storage_used = py_round u 1 in
        returnG (reasons @ [
            ''Low connection count (average '' @ str_int L connections @ '' active connections/day)'',
            ''Low storage utilization ('' @ str_float L storage_used @ ''% used)'',
            ''Minimal query activity in the last '' @ str_int L days_ago @ '' days'']))))
     else if resource_type = ''DynamoDB Table'' then (
        bindG (uniform 0.1 2) (\<lambda>u.
        let read_capacity = py_round u 2 in
        bindG (uniform 0.1 1) (\<lambda>u.
        let write_capacity = py_round u 2 in
        returnG (reasons @ [
            ''Low read capacity utilization ('' @ str_float L read_capacity @ ''% of provisioned)'',
            ''Low write capacity utilization ('' @ str_float L write_capacity @ ''% of provisioned)'',
            ''No table updates in past month'']))))
     else if resource_type = ''EBS Volume'' then (
        bindG (randint 1 10) (\<lambda>iops.
        returnG (reasons @ [
            ''Low I/O activity (average '' @ str_int L iops @ '' IOPS)'',
            ''No snapshot created'',
            ''Not attached to any active instance''])))
     else if resource_type = ''EBS Snapshot'' then (
        bindG (randint 180 365) (\<lambda>age.
        returnG (reasons @ [
            ''Snapshot is '' @ str_int L age @ '' days old'',
            ''Source volume no longer exists'',
            ''Multiple redundant snapshots exist''])))
     else if resource_type = ''Elastic IP'' then (
        returnG (reasons @ [
            ''Not associated with any running instance'',
            ''No network traffic in '' @ str_int L days_ago @ '' days'',
            ''No DNS records pointing to this IP'']))
     else if resource_type = ''ELB'' then (
        bindG (randint 1 10) (\<lambda>requests.
        returnG (reasons @ [
            ''Low request count (average '' @ str_int L requests @ '' requests/minute)'',
            ''No healthy backend instances'',
            ''Minimal network traffic ('' @ str_float L network_util @ '' KB/s average)''])))
     else if resource_type = ''IAM Role'' then (
        returnG (reasons @ [
            ''No API calls in the last '' @ str_int L days_ago @ '' days'',
            ''No attached policies'',
            ''No services using this role'']))
     else if resource_type = ''IAM User'' then (
        returnG (reasons @ [
            ''No console or API activity in '' @ str_int L days_ago @ '' days'',
            ''No attached policies'',
            ''User has never logged in'']))
     else if resource_type = ''OpenSearch Domain'' then (
        bindG (randint 1 5) (\<lambda>search_requests.
        bindG (uniform 0.1 2) (\<lambda>u.
        let index_size = py_round u 2 in
        returnG (reasons @ [
            ''Low search traffic (average '' @ str_int L search_requests @ '' requests/minute)'',
            ''Small index size ('' @ str_float L index_size @ '' GB)'',
            ''No index updates in past month'']))))
     else returnG reasons)"

definition generate_resource_reasons :: "pylib \<Rightarrow> string \<Rightarrow> int \<Rightarrow> string list gen" where
  "generate_resource_reasons L resource_type days_ago =
     (
     let reasons = [] in
     bindG (uniform 1 5) (\<lambda>u.
     let cpu_util = py_round u 2 in
     bindG (uniform 1 8) (\<lambda>u.
     let memory_util = py_round u 2 in
     bindG (uniform 0.1 2) (\<lambda>u.
     let network_util = py_round u 2 in
     bindG (type_reasons L resource_type days_ago cpu_util memory_util network_util reasons) (\<lambda>reasons.
     bindG (randint 2 3) (\<lambda>k.
     sample reasons k))))))"

subsection \<open>\<^verbatim>\<open>generate_resource_details\<close>\<close>

text \<open>
  \<^verbatim>\<open>details\<close> is a fresh dict; \<^verbatim>\<open>details[k] = v\<close> is the update of its association
  list.  \<^verbatim>\<open>(datetime.now() - timedelta(days=randint(30, 365))).isoformat()\<close> recurs.
\<close>

definition days_ago_iso :: "pylib \<Rightarrow> int \<Rightarrow> int \<Rightarrow> string gen" where
  "days_ago_iso L lo hi =
     bindG datetime_now (\<lambda>now. bindG (randint lo hi) (\<lambda>d.
       returnG (isoformat L (now - timedelta_days d))))"

text \<open>\<^verbatim>\<open>f"{resource_type.lower().replace(' ', '-')}-{random.randint(10000000, 99999999):08x}"\<close>.\<close>

definition type_slug_id :: "pylib \<Rightarrow> string \<Rightarrow> string gen" where
  "type_slug_id L resource_type =
     bindG (randint 10000000 99999999) (\<lambda>n.
       returnG (replace_char CHR '' '' CHR ''-'' (lower resource_type) @ ''-'' @ format_08x L n))"

definition generate_resource_details :: "pylib \<Rightarrow> string \<Rightarrow> pyval gen" where
  "generate_resource_details L resource_type =
     (let details = [] in
      bindG (if resource_type = ''EC2 Instance'' then (
        let instance_types = [''t3.micro'', ''t3.small'', ''t3.medium'', ''t3.large'', ''r5.xlarge''] in
        bindG (choice instance_types) (\<lambda>v.
        let details = AList.update ''InstanceType'' (PStr v) details in
        bindG (choice [''running'', ''stopped'']) (\<lambda>v.
        let details = AList.update ''State'' (PStr v) details in
        bindG (days_ago_iso L 30 365) (\<lambda>v.
        let details = AList.update ''LaunchTime'' (PStr v) details in
        bindG (generate_resource_name resource_type) (\<lambda>name.
        bindG (choice [''dev'', ''stg'', ''prod'']) (\<lambda>env.
        bindG (choice [''platform'', ''backend'', ''frontend'']) (\<lambda>team.
        let details = AList.update ''Tags'' (PList [
            PDict [(''Key'', PStr ''Name''), (''Value'', PStr (name @ ''-01''))],
            PDict [(''Key'', PStr ''Environment''), (''Value'', PStr (lower env))],
            PDict [(''Key'', PStr ''Team''), (''Value'', PStr team)]]) details in
        bindG (uuid4_hex8 L) (\<lambda>sg1.
        bindG (uuid4_hex8 L) (\<lambda>sg2.
        let details = AList.update ''SecurityGroups'' (PList [
            PDict [(''GroupId'', PStr (''sg-'' @ sg1)), (''GroupName'', PStr ''default'')],
            PDict [(''GroupId'', PStr (''sg-'' @ sg2)), (''GroupName'', PStr ''app-server'')]]) details in
        bindG (uuid4_hex8 L) (\<lambda>eni.
        bindG (randint 1 255) (\<lambda>a.
        bindG (randint 1 255) (\<lambda>b.
        bindG (randint 1 255) (\<lambda>c.
        bindG (randint 1 255) (\<lambda>d.
        bindG (randint 1 255) (\<lambda>e.
        let details = AList.update ''NetworkInterfaces'' (PList [
            PDict [(''NetworkInterfaceId'', PStr (''eni-'' @ eni)), (''PrivateIpAddress'', PStr (''10.0.'' @ str_int L a @ ''.'' @ str_int L b)), (''PublicIpAddress'', PStr (''54.'' @ str_int L c @ ''.'' @ str_int L d @ ''.'' @ str_int L e))]]) details in
        returnG details)))))))))))))))
      else if resource_type = ''RDS Instance'' then (
        let instance_classes = [''db.t3.micro'', ''db.t3.small'', ''db.t3.medium'', ''db.r5.large''] in
        bindG (choice instance_classes) (\<lambda>v.
        let details = AList.update ''DBInstanceClass'' (PStr v) details in
        bindG (choice [''mysql'', ''postgres'', ''aurora'']) (\<lambda>v.
        let details = AList.update ''Engine'' (PStr v) details in
        let details = AList.update ''EngineVersion'' (PStr ''8.0.28'') details in
        bindG (type_slug_id L resource_type) (\<lambda>v.
        let details = AList.update ''DBInstanceIdentifier'' (PStr v) details in
        let details = AList.update ''DBInstanceStatus'' (PStr ''available'') details in
        let details = AList.update ''MasterUsername'' (PStr ''admin'') details in
        bindG (uuid4_hex8 L) (\<lambda>u.
        bindG (liftG (getitem (PDict details) ''Engine'')) (\<lambda>engine.
        bindG (liftG (contains engine ''postgres'')) (\<lambda>is_postgres.
        let details = AList.update ''Endpoint'' (PDict [(''Address'', PStr (''db-'' @ u @ ''.cluster-xyz.region.rds.amazonaws.com'')), (''Port'', PInt (if is_postgres then 5432 else 3306))]) details in
        bindG (randint 50 1000) (\<lambda>v.
        let details = AList.update ''AllocatedStorage'' (PInt v) details in
        let details = AList.update ''PreferredBackupWindow'' (PStr ''03:00-04:00'') details in
        bindG (choice [7, 14, 30, 35]) (\<lambda>v.
        let details = AList.update ''BackupRetentionPeriod'' (PInt v) details in
        bindG (uuid4_hex8 L) (\<lambda>u.
        let details = AList.update ''VpcSecurityGroups'' (PList [PDict [(''VpcSecurityGroupId'', PStr (''sg-'' @ u)), (''Status'', PStr ''active'')]]) details in
        bindG (choice [True, False]) (\<lambda>v.
        let details = AList.update ''MultiAZ'' (PBool v) details in
        let details = AList.update ''PubliclyAccessible'' (PBool False) details in
        let details = AList.update ''StorageEncrypted'' (PBool True) details in
        let details = AList.update ''PerformanceInsights'' (PDict [(''Enabled'', PBool True), (''RetentionPeriod'', PInt 7)]) details in
        returnG details)))))))))))
      else if resource_type = ''EBS Volume'' then (
        bindG (randint 8 100) (\<lambda>v.
        let details = AList.update ''Size'' (PInt v) details in
        bindG (choice [''gp2'', ''gp3'', ''io1'']) (\<lambda>v.
        let details = AList.update ''VolumeType'' (PStr v) details in
        let details = AList.update ''State'' (PStr ''available'') details in
        bindG (type_slug_id L resource_type) (\<lambda>v.
        let details = AList.update ''VolumeId'' (PStr v) details in
        let details = AList.update ''Encrypted'' (PBool True) details in
        bindG (randint 100 3000) (\<lambda>v.
        let details = AList.update ''Iops'' (PInt v) details in
        let details = AList.update ''MultiAttach'' (PBool False) details in
        returnG details)))))
      else if resource_type = ''EBS Snapshot'' then (
        bindG (randint 8 100) (\<lambda>v.
        let details = AList.update ''VolumeSize'' (PInt v) details in
        let details = AList.update ''State'' (PStr ''completed'') details in
        bindG (days_ago_iso L 30 365) (\<lambda>v.
        let details = AList.update ''StartTime'' (PStr v) details in
        bindG (type_slug_id L resource_type) (\<lambda>v.
        let details = AList.update ''VolumeId'' (PStr v) details in
        returnG details))))
      else if resource_type = ''DynamoDB Table'' then (
        bindG (randint 1 3) (\<lambda>r.
        bindG (randint 1 2) (\<lambda>w.
        let details = AList.update ''ProvisionedThroughput'' (PDict [(''ReadCapacityUnits'', PInt r), (''WriteCapacityUnits'', PInt w)]) details in
        let details = AList.update ''TableStatus'' (PStr ''ACTIVE'') details in
        bindG (generate_resource_name resource_type) (\<lambda>name.
        let details = AList.update ''TableName'' (PStr (name @ ''-01'')) details in
        bindG (days_ago_iso L 30 365) (\<lambda>v.
        let details = AList.update ''CreationDateTime'' (PStr v) details in
        bindG (randint 1000 1000000) (\<lambda>v.
        let details = AList.update ''TableSizeBytes'' (PInt v) details in
        bindG (randint 0 1000) (\<lambda>v.
        let details = AList.update ''ItemCount'' (PInt v) details in
        bindG (choice [True, False]) (\<lambda>v.
        let details = AList.update ''StreamEnabled'' (PBool v) details in
        returnG details))))))))
      else if resource_type = ''IAM User'' then (
        bindG (days_ago_iso L 30 365) (\<lambda>v.
        let details = AList.update ''CreateDate'' (PStr v) details in
        bindG (days_ago_iso L 30 365) (\<lambda>v.
        let details = AList.update ''PasswordLastUsed'' (PStr v) details in
        bindG (randint 0 3) (\<lambda>v.
        let details = AList.update ''Groups'' (PInt v) details in
        returnG details))))
      else if resource_type = ''IAM Role'' then (
        bindG (days_ago_iso L 30 365) (\<lambda>v.
        let details = AList.update ''CreateDate'' (PStr v) details in
        bindG (days_ago_iso L 30 365) (\<lambda>v.
        let details = AList.update ''LastUsedDate'' (PStr v) details in
        bindG (randint 1 5) (\<lambda>v.
        let details = AList.update ''AttachedPolicies'' (PInt v) details in
        returnG details))))
      else if resource_type = ''Elastic IP'' then (
        bindG (randint 0 255) (\<lambda>a.
        bindG (randint 0 255) (\<lambda>b.
        bindG (randint 0 255) (\<lambda>c.
        let details = AList.update ''PublicIp'' (PStr (''54.'' @ str_int L a @ ''.'' @ str_int L b @ ''.'' @ str_int L c)) details in
        bindG (randint 10000000 99999999) (\<lambda>n.
        let details = AList.update ''AllocationId'' (PStr (''eipalloc-'' @ format_08x L n)) details in
        let details = AList.update ''Domain'' (PStr ''vpc'') details in
        returnG details)))))
      else if resource_type = ''OpenSearch Domain'' then (
        let instance_types = [''t3.small.search'', ''t3.medium.search'', ''r5.large.search''] in
        bindG (choice instance_types) (\<lambda>v.
        let details = AList.update ''InstanceType'' (PStr v) details in
        let details = AList.update ''EngineVersion'' (PStr ''OpenSearch_1.0'') details in
        bindG (randint 1 3) (\<lambda>n.
        bindG (choice [True, False]) (\<lambda>m.
        let details = AList.update ''ClusterConfig'' (PDict [(''InstanceCount'', PInt n), (''DedicatedMasterEnabled'', PBool m)]) details in
        returnG details))))
      else returnG details) (\<lambda>details.
      returnG (PDict details)))"

subsection \<open>\<^verbatim>\<open>calculate_scan_metrics\<close>\<close>

definition calculate_scan_metrics :: "pylib \<Rightarrow> pyval \<Rightarrow> pyval gen" where
  "calculate_scan_metrics L total_resources =
     (
     let total_run_time_seconds = (60 :: int) in
     let max_workers = (10 :: int) in
     bindG (randint 7 max_workers) (\<lambda>peak_workers.
     bindG (liftG (truediv (of_int peak_workers) (of_int max_workers))) (\<lambda>ratio.
     let worker_utilization = ratio * 100 in
     bindG (uniform 5.0 8.0) (\<lambda>tasks_per_second.
     let total_scans = py_trunc (tasks_per_second * of_int total_run_time_seconds) in
     bindG (randint 1 3) (\<lambda>failed_scans.
     let completed_scans = total_scans - failed_scans in
     bindG (liftG (truediv (of_int (total_run_time_seconds * 1000)) (of_int total_scans))) (\<lambda>avg_execution_time_ms.
     bindG (datetime_now) (\<lambda>now.
     bindG (uniform 5000 15000) (\<lambda>total_cost.
     returnG (PDict [
        (''CompletedAt'', PStr (isoformat L (now + timedelta_days 365))),
        (''TotalResources'', total_resources),
        (''ResourcesByType'', PDict []),
        (''TotalCost'', PFloat total_cost),
        (''TotalScans'', PInt total_scans),
        (''CompletedScans'', PInt completed_scans),
        (''FailedScans'', PInt failed_scans),
        (''TasksPerSecond'', PFloat tasks_per_second),
        (''AvgExecutionTimeMs'', PFloat (py_round avg_execution_time_ms 2)),
        (''WorkerUtilization'', PFloat worker_utilization),
        (''PeakWorkers'', PInt peak_workers),
        (''MaxWorkers'', PInt max_workers),
        (''TotalRunTime'', PStr ''1m0s'')])))))))))"

subsection \<open>\<^verbatim>\<open>generate_random_regions\<close>\<close>

definition generate_random_regions :: "string list gen" where
  "generate_random_regions =
     (let regions = [''us-east-1'', ''us-east-2'', ''us-west-1'', ''us-west-2'',
                     ''eu-central-1'', ''eu-west-1'', ''ap-southeast-1''] in
      bindG (randint 3 7) (\<lambda>k. sample regions k))"

subsection \<open>\<^verbatim>\<open>generate_sample_data\<close>\<close>

text \<open>\<^verbatim>\<open>d[k] += v\<close>.\<close>

definition iadd_item :: "pyval \<Rightarrow> string \<Rightarrow> pyval \<Rightarrow> py_error + pyval" where
  "iadd_item d k v =
     bindE (getitem d k) (\<lambda>old. bindE (py_add old v) (\<lambda>new. setitem d k new))"

text \<open>The body of the inner loop \<^verbatim>\<open>for i in range(num_resources)\<close>.\<close>

definition resource_body :: "pylib \<Rightarrow> string \<Rightarrow> int \<Rightarrow> pyval \<Rightarrow> pyval gen" where
  "resource_body L resource_type i data =
     (
     bindG (liftG (bindE (getitem data ''AccountsAndRegions'') dict_keys)) (\<lambda>accounts.
     bindG (choice accounts) (\<lambda>account_id.
     bindG (liftG (bindE (getitem data ''AccountsAndRegions'') (\<lambda>ar.
            bindE (getitem ar account_id) list_items))) (\<lambda>regions.
     bindG (choice regions) (\<lambda>region.
     bindG (generate_resource_details L resource_type) (\<lambda>details.
     bindG (type_slug_id L resource_type) (\<lambda>ident.
     bindG (generate_resource_name resource_type) (\<lambda>name.
     bindG (liftG (bindE (getitem data ''AccountNames'') (\<lambda>an. getitem an account_id))) (\<lambda>account_name.
     bindG (days_ago_iso L 30 180) (\<lambda>last_used.
     bindG (uniform 100 1000) (\<lambda>savings.
     bindG (generate_resource_reasons L resource_type 180) (\<lambda>reasons.
     bindG (calculate_resource_costs L resource_type details) (\<lambda>costs.
     let resource = PDict [
            (''id'', PStr ident),
            (''name'', PStr (name @ ''-'' @ zfill 2 (str_int L (i + 1)))),
            (''type'', PStr resource_type),
            (''account_id'', PStr account_id),
            (''account_name'', account_name),
            (''region'', region),
            (''last_used'', PStr last_used),
            (''estimated_monthly_savings'', PFloat (py_round savings 2)),
            (''reasons'', PList (map PStr reasons)),
            (''details'', details),
            (''costs'', costs)] in
     bindG (liftG (modify_at [''UnusedResources''] (\<lambda>rs. list_append rs resource) data)) (\<lambda>data.
     bindG (liftG (bindE (getitem data ''ScanMetrics'') (\<lambda>sm.
            bindE (getitem sm ''ResourcesByType'') (\<lambda>by_type. contains by_type resource_type)))) (\<lambda>counted.
     bindG (liftG (if counted then Inr data
            else modify_at [''ScanMetrics'', ''ResourcesByType'']
                   (\<lambda>by_type. setitem by_type resource_type (PInt 0)) data)) (\<lambda>data.
     liftG (modify_at [''ScanMetrics'', ''ResourcesByType'']
           (\<lambda>by_type. iadd_item by_type resource_type (PInt 1)) data)))))))))))))))))"

text \<open>The body of the outer loop \<^verbatim>\<open>for resource_type in resource_types\<close>.\<close>

definition type_body :: "pylib \<Rightarrow> string \<Rightarrow> pyval \<Rightarrow> pyval gen" where
  "type_body L resource_type data =
     bindG (randint 5 15) (\<lambda>num_resources.
     for_each (map int [0 ..< nat num_resources]) (resource_body L resource_type) data)"

definition periods :: "string list" where
  "periods = [''hourly'', ''daily'', ''monthly'', ''yearly'', ''lifetime'']"

text \<open>
  The loop \<^verbatim>\<open>for period in [...]\<close> over one resource, and the loop over the resources;
  their state is the pair of \<^verbatim>\<open>cost_breakdown\<close> and \<^verbatim>\<open>total_costs\<close>.
\<close>

definition period_body :: "pyval \<Rightarrow> string \<Rightarrow> string \<Rightarrow> pyval \<times> pyval \<Rightarrow> py_error + pyval \<times> pyval" where
  "period_body resource resource_type period st =
     (case st of (cost_breakdown, total_costs) \<Rightarrow>
        bindE (bindE (getitem resource ''costs'') (\<lambda>costs. getitem costs period)) (\<lambda>cost.
        bindE (modify_at [resource_type] (\<lambda>entry. iadd_item entry period cost) cost_breakdown)
          (\<lambda>cost_breakdown.
        bindE (iadd_item total_costs period cost) (\<lambda>total_costs.
        Inr (cost_breakdown, total_costs)))))"

definition group_body :: "pyval \<Rightarrow> pyval \<times> pyval \<Rightarrow> py_error + pyval \<times> pyval" where
  "group_body resource st =
     (case st of (cost_breakdown, total_costs) \<Rightarrow>
        bindE (getitem resource ''type'') (\<lambda>type_value.
        bindE (str_value type_value) (\<lambda>resource_type.
        bindE (contains cost_breakdown resource_type) (\<lambda>grouped.
        bindE (if grouped then Inr cost_breakdown
               else setitem cost_breakdown resource_type (PDict [
                      (''type'', type_value),
                      (''hourly'', PFloat 0),
                      (''daily'', PFloat 0),
                      (''monthly'', PFloat 0),
                      (''yearly'', PFloat 0),
                      (''lifetime'', PFloat 0)])) (\<lambda>cost_breakdown.
        for_eachE periods (period_body resource resource_type) (cost_breakdown, total_costs))))))"

definition resource_types :: "string list" where
  "resource_types = [''EC2 Instance'', ''RDS Instance'', ''ELB'', ''EBS Volume'', ''EBS Snapshot'',
     ''DynamoDB Table'', ''IAM User'', ''IAM Role'', ''Elastic IP'', ''OpenSearch Domain'']"

definition generate_sample_data :: "pylib \<Rightarrow> pyval gen" where
  "generate_sample_data L =
     (
     bindG (datetime_now) (\<lambda>now.
     bindG (generate_random_regions) (\<lambda>regions1.
     bindG (generate_random_regions) (\<lambda>regions2.
     bindG (generate_random_regions) (\<lambda>regions3.
     let data = PDict [
         (''ScanMetrics'', PDict [
            (''CompletedAt'', PStr (isoformat L (now + timedelta_days 365))),
            (''TotalResources'', PInt 0),
            (''ResourcesByType'', PDict [])]),
         (''AccountsAndRegions'', PDict [
            (''123456789012'', PList (map PStr regions1)),
            (''234567890123'', PList (map PStr regions2)),
            (''345678901234'', PList (map PStr regions3))]),
         (''AccountNames'', PDict [
            (''123456789012'', PStr ''Production''),
            (''234567890123'', PStr ''Staging''),
            (''345678901234'', PStr ''Development'')]),
         (''UnusedResources'', PList [])] in
     bindG (for_each resource_types (type_body L) data) (\<lambda>data.
     bindG (liftG (bindE (getitem data ''UnusedResources'') py_len)) (\<lambda>n.
     bindG (liftG (modify_at [''ScanMetrics'']
            (\<lambda>sm. setitem sm ''TotalResources'' (PInt n)) data)) (\<lambda>data.
     bindG (liftG (bindE (getitem data ''ScanMetrics'') (\<lambda>sm. getitem sm ''TotalResources''))) (\<lambda>total_resources.
     bindG (calculate_scan_metrics L total_resources) (\<lambda>scan_metrics.
     bindG (liftG (modify_at [''ScanMetrics''] (\<lambda>sm. dict_update sm scan_metrics) data)) (\<lambda>data.
     let cost_breakdown = PDict [] in
     let total_costs = zero_costs in
     bindG (liftG (bindE (getitem data ''UnusedResources'') list_items)) (\<lambda>resources.
     bindG (liftG (for_eachE resources group_body (cost_breakdown, total_costs))) (\<lambda>grouped.
     bindG (liftG (dict_values (fst grouped))) (\<lambda>entries.
     bindG (liftG (setitem data ''CostBreakdown'' (PList entries))) (\<lambda>data.
     bindG (liftG (setitem data ''TotalCosts'' (snd grouped))) (\<lambda>data.
     returnG data))))))))))))))))"

subsection \<open>\<^verbatim>\<open>main\<close>\<close>

text \<open>
  The file system as \<^verbatim>\<open>main\<close> meets it: whether \<^verbatim>\<open>open(path, "w")\<close> raises, whether
  writing a text to the opened file raises (both \<^verbatim>\<open>OSError\<close>), the files' contents, and
  the lines printed.
\<close>

record filesystem =
  open_fails :: "string \<Rightarrow> bool"
  write_fails :: "string \<Rightarrow> string \<Rightarrow> bool"
  files :: "(string \<times> string) list"
  printed :: "string list"

definition main :: "pylib \<Rightarrow> filesystem \<Rightarrow> tape \<Rightarrow> py_error + filesystem" where
  "main L fs g =
     (case generate_sample_data L g of
        Inl e \<Rightarrow> Inl e
      | Inr (data, g') \<Rightarrow>
          (let output_file = ''examples/sample_scan_data.json'' in
           if open_fails fs output_file then Inl OSError
           else if write_fails fs output_file (json_dumps L data) then Inl OSError
           else Inr (fs\<lparr>files := AList.update output_file (json_dumps L data) (files fs),
                       printed := printed fs @ [''Sample data written to '' @ output_file]\<rparr>)))"

section \<open>Specification vocabulary\<close>

text \<open>
  \<open>ensures m P\<close>: on every tape the computation \<open>m\<close> returns (it raises nothing) and its
  result satisfies \<open>P\<close>.
\<close>

definition ensures :: "'a gen \<Rightarrow> ('a \<Rightarrow> bool) \<Rightarrow> bool" where
  "ensures m P = (\<forall>g. \<exists>x g'. m g = Inr (x, g') \<and> P x)"

text \<open>
  The typed view of a costs dict: its five floats in the order of \<open>periods\<close>, if it is a
  dict of exactly these five keys with float values.
\<close>

fun float_items :: "(string \<times> pyval) list \<Rightarrow> (string \<times> rat) list option" where
  "float_items [] = Some []"
| "float_items ((k, PFloat x) # kvs) = map_option (Cons (k, x)) (float_items kvs)"
| "float_items (kv # kvs) = None"

fun costs_view :: "pyval \<Rightarrow> rat list option" where
  "costs_view (PDict d) = (case float_items d of
       Some fs \<Rightarrow> if map fst fs = periods then Some (map snd fs) else None
     | None \<Rightarrow> None)"
| "costs_view _ = None"

text \<open>
  What \<^verbatim>\<open>calculate_resource_costs\<close> needs of the details of a resource: its branch for
  the type returns a costs dict (with yearly and lifetime still 0.0).
\<close>

definition details_ok :: "pylib \<Rightarrow> string \<Rightarrow> pyval \<Rightarrow> bool" where
  "details_ok L t d = (case type_costs L t d zero_costs of
       Inr c \<Rightarrow> (case costs_view c of
                   Some [h, dd, m, y, l] \<Rightarrow> y = 0 \<and> l = 0 \<and>
                     (if t = ''IAM User'' \<or> t = ''IAM Role'' then h = 0 \<and> dd = 0 \<and> m = 0 else True)
                 | _ \<Rightarrow> False)
     | Inl e \<Rightarrow> False)"

text \<open>The dict of the five cost figures \<open>[hourly, daily, monthly, yearly, lifetime]\<close>.\<close>

definition costs_dict :: "rat list \<Rightarrow> pyval" where
  "costs_dict vs = PDict (zip periods (map PFloat vs))"

text \<open>The costs dict of a generated resource of type \<open>t\<close>.\<close>

definition costs_ok :: "string \<Rightarrow> pyval \<Rightarrow> bool" where
  "costs_ok t c = (case costs_view c of
       Some [h, dd, m, y, l] \<Rightarrow> y = m * 12 \<and> (\<exists>k. - 1 \<le> k \<and> k \<le> 3 \<and> l = y * of_int k) \<and>
         (if t = ''IAM User'' \<or> t = ''IAM Role'' then h = 0 \<and> dd = 0 \<and> m = 0 else True)
     | _ \<Rightarrow> False)"

text \<open>The dict \<^verbatim>\<open>calculate_scan_metrics\<close> returns, for the eleven values it computes.\<close>

definition metrics_dict :: "pyval \<Rightarrow> pyval list \<Rightarrow> pyval" where
  "metrics_dict total_resources vs = PDict (zip
     [''CompletedAt'', ''TotalResources'', ''ResourcesByType'', ''TotalCost'', ''TotalScans'',
      ''CompletedScans'', ''FailedScans'', ''TasksPerSecond'', ''AvgExecutionTimeMs'',
      ''WorkerUtilization'', ''PeakWorkers'', ''MaxWorkers'', ''TotalRunTime'']
     (vs ! 0 # total_resources # PDict [] # drop 1 vs))"

text \<open>
  The document while the resources are generated: the per-type counts gathered so far, the
  regions drawn for the three accounts, and the resources appended so far.
\<close>

definition int_items :: "(string \<times> int) list \<Rightarrow> (string \<times> pyval) list" where
  "int_items counts = map (\<lambda>(k, n). (k, PInt n)) counts"

definition loop_doc ::
  "pyval \<Rightarrow> (string \<times> int) list \<Rightarrow> string list \<Rightarrow> string list \<Rightarrow> string list \<Rightarrow> pyval list \<Rightarrow> pyval" where
  "loop_doc completed counts regions1 regions2 regions3 resources = PDict [
     (''ScanMetrics'', PDict [
        (''CompletedAt'', completed),
        (''TotalResources'', PInt 0),
        (''ResourcesByType'', PDict (int_items counts))]),
     (''AccountsAndRegions'', PDict [
        (''123456789012'', PList (map PStr regions1)),
        (''234567890123'', PList (map PStr regions2)),
        (''345678901234'', PList (map PStr regions3))]),
     (''AccountNames'', PDict [
        (''123456789012'', PStr ''Production''),
        (''234567890123'', PStr ''Staging''),
        (''345678901234'', PStr ''Development'')]),
     (''UnusedResources'', PList resources)]"

text \<open>
  A generated resource of type \<open>t\<close>: a dict whose \<^verbatim>\<open>"type"\<close> is \<open>t\<close> and whose
  \<^verbatim>\<open>"costs"\<close> is a costs dict as above; a block is the run of 5 to 15 resources that one
  iteration of the outer loop appends.
\<close>

definition resource_ok :: "string \<Rightarrow> pyval \<Rightarrow> bool" where
  "resource_ok t r = (case getitem r ''type'' of
       Inr (PStr t') \<Rightarrow> t' = t \<and> (case getitem r ''costs'' of Inr c \<Rightarrow> costs_ok t c | Inl e \<Rightarrow> False)
     | _ \<Rightarrow> False)"

definition block_ok :: "string \<Rightarrow> pyval list \<Rightarrow> bool" where
  "block_ok t b = (5 \<le> length b \<and> length b \<le> 15 \<and> list_all (resource_ok t) b)"

text \<open>
  The typed view of a resource record: the string at \<^verbatim>\<open>resource["type"]\<close> and the five
  floats at \<^verbatim>\<open>resource["costs"]\<close> in the order hourly, daily, monthly, yearly, lifetime.
  It is \<open>None\<close> for a value that has no such fields.
\<close>

definition resource_view :: "pyval \<Rightarrow> (string \<times> rat list) option" where
  "resource_view r = (case getitem r ''type'' of
       Inr (PStr t) \<Rightarrow> (case getitem r ''costs'' of
                          Inr c \<Rightarrow> map_option (Pair t) (costs_view c)
                        | Inl e \<Rightarrow> None)
     | _ \<Rightarrow> None)"

text \<open>
  For a list of views: the sum of each of the five cost periods over the list; the types
  that occur, each once, in the order of first occurrence; and the entry of the cost
  breakdown for a type, holding the sums over the resources of that type.
\<close>

definition period_sums :: "(string \<times> rat list) list \<Rightarrow> rat list" where
  "period_sums vs = map (\<lambda>i. sum_list (map (\<lambda>v. snd v ! i) vs)) [0, 1, 2, 3, 4]"

definition present_types :: "(string \<times> rat list) list \<Rightarrow> string list" where
  "present_types vs = rev (remdups (rev (map fst vs)))"

definition breakdown_entry :: "(string \<times> rat list) list \<Rightarrow> string \<Rightarrow> pyval" where
  "breakdown_entry vs t =
     PDict ((''type'', PStr t) # zip periods (map PFloat (period_sums (filter (\<lambda>v. fst v = t) vs))))"

text \<open>The pair \<^verbatim>\<open>(cost_breakdown, total_costs)\<close> after the grouping loop has seen \<open>vs\<close>.\<close>

definition group_state :: "(string \<times> rat list) list \<Rightarrow> pyval \<times> pyval" where
  "group_state vs = (PDict (map (\<lambda>t. (t, breakdown_entry vs t)) (present_types vs)),
     costs_dict (period_sums vs))"

text \<open>The views of the resources of a block of type \<open>t\<close>.\<close>

definition view_ok :: "string \<Rightarrow> string \<times> rat list \<Rightarrow> bool" where
  "view_ok t v = (fst v = t \<and> (case snd v of
       [h, dd, m, y, l] \<Rightarrow> y = m * 12 \<and> (\<exists>k. - 1 \<le> k \<and> k \<le> 3 \<and> l = y * of_int k) \<and>
         (if t = ''IAM User'' \<or> t = ''IAM Role'' then h = 0 \<and> dd = 0 \<and> m = 0 else True)
     | _ \<Rightarrow> False))"

definition views_ok :: "string \<Rightarrow> (string \<times> rat list) list \<Rightarrow> bool" where
  "views_ok t ws = (5 \<le> length ws \<and> length ws \<le> 15 \<and> list_all (view_ok t) ws)"

text \<open>
  The returned document, for the eleven computed scan metrics \<open>ms\<close>, the regions of the
  three accounts, the resources \<open>rs\<close> and their views \<open>vs\<close>; \<open>counted_doc\<close> is the
  document before the cost breakdown and the totals are stored.
\<close>

definition accounts_and_regions :: "string list \<Rightarrow> string list \<Rightarrow> string list \<Rightarrow> pyval" where
  "accounts_and_regions regions1 regions2 regions3 = PDict [
     (''123456789012'', PList (map PStr regions1)),
     (''234567890123'', PList (map PStr regions2)),
     (''345678901234'', PList (map PStr regions3))]"

definition account_names :: pyval where
  "account_names = PDict [
     (''123456789012'', PStr ''Production''),
     (''234567890123'', PStr ''Staging''),
     (''345678901234'', PStr ''Development'')]"

definition report ::
  "pyval list \<Rightarrow> string list \<Rightarrow> string list \<Rightarrow> string list \<Rightarrow> pyval list \<Rightarrow> (string \<times> rat list) list \<Rightarrow> pyval" where
  "report ms regions1 regions2 regions3 rs vs = PDict [
     (''ScanMetrics'', metrics_dict (PInt (int (length rs))) ms),
     (''AccountsAndRegions'', accounts_and_regions regions1 regions2 regions3),
     (''AccountNames'', account_names),
     (''UnusedResources'', PList rs),
     (''CostBreakdown'', PList (map (breakdown_entry vs) (present_types vs))),
     (''TotalCosts'', costs_dict (period_sums vs))]"

definition counted_doc ::
  "pyval \<Rightarrow> string list \<Rightarrow> string list \<Rightarrow> string list \<Rightarrow> pyval list \<Rightarrow> pyval" where
  "counted_doc sm regions1 regions2 regions3 rs = PDict [
     (''ScanMetrics'', sm),
     (''AccountsAndRegions'', accounts_and_regions regions1 regions2 regions3),
     (''AccountNames'', account_names),
     (''UnusedResources'', PList rs)]"

text \<open>
  What every run returns: a report over resources that all have views, the views falling
  into one block per catalog type, in catalog order.
\<close>

definition report_ok :: "pyval \<Rightarrow> bool" where
  "report_ok d = (\<exists>ms r1 r2 r3 rs vss. length ms = 11
     \<and> d = report ms r1 r2 r3 rs (concat vss)
     \<and> map resource_view rs = map Some (concat vss)
     \<and> list_all2 views_ok resource_types vss)"

text \<open>Vocabulary of the claims.\<close>

fun is_dict :: "pyval \<Rightarrow> bool" where
  "is_dict (PDict d) = True"
| "is_dict _ = False"

definition output_file :: string where
  "output_file = ''examples/sample_scan_data.json''"

definition is_iam :: "string \<times> rat list \<Rightarrow> bool" where
  "is_iam v = (fst v = ''IAM User'' \<or> fst v = ''IAM Role'')"

section \<open>Total correctness of the generators\<close>

lemma ensuresD: "ensures m P \<Longrightarrow> \<exists>x g'. m g = Inr (x, g') \<and> P x"
  by (simp add: ensures_def)

lemma ensures_weaken: "ensures m P \<Longrightarrow> (\<And>x. P x \<Longrightarrow> Q x) \<Longrightarrow> ensures m Q"
  unfolding ensures_def by blast

lemma ensures_returnG: "P x \<Longrightarrow> ensures (returnG x) P"
  by (simp add: ensures_def returnG_def)

lemma ensures_liftG: "r = Inr x \<Longrightarrow> P x \<Longrightarrow> ensures (liftG r) P"
  by (simp add: ensures_def liftG_def)

lemma ensures_bindG: 
  assumes "ensures m Q" and "\<And>x. Q x \<Longrightarrow> ensures (f x) P"
  shows "ensures (bindG m f) P"
  unfolding ensures_def
proof
  fix g
  from assms(1) obtain x g' where m: "m g = Inr (x, g')" and q: "Q x"
    unfolding ensures_def by blast
  from assms(2)[OF q] obtain y g'' where "f x g' = Inr (y, g'')" and "P y"
    unfolding ensures_def by blast
  with m show "\<exists>y g''. bindG m f g = Inr (y, g'') \<and> P y"
    by (simp add: bindG_def)
qed

lemma ensures_bindG_any:
  assumes "ensures m (\<lambda>_. True)" and "\<And>x. ensures (f x) P"
  shows "ensures (bindG m f) P"
  using assms by (auto intro: ensures_bindG)

lemma ensures_randint: "a \<le> b \<Longrightarrow> ensures (randint a b) (\<lambda>x. a \<le> x \<and> x \<le> b)"
proof -
  assume ab: "a \<le> b"
  have "\<And>r. int (r mod nat (b - a + 1)) \<le> b - a"
  proof -
    fix r :: nat
    have "r mod nat (b - a + 1) < nat (b - a + 1)" using ab by simp
    thus "int (r mod nat (b - a + 1)) \<le> b - a" using ab by linarith
  qed
  thus ?thesis using ab
    by (auto simp: ensures_def randint_def split: prod.split) (smt (verit))
qed

lemma total_randint: "a \<le> b \<Longrightarrow> ensures (randint a b) (\<lambda>_. True)"
  by (rule ensures_weaken[OF ensures_randint]) auto

lemma ensures_choice: "xs \<noteq> [] \<Longrightarrow> ensures (choice xs) (\<lambda>x. x \<in> set xs)"
  by (auto simp: ensures_def choice_def split: prod.split)

lemma total_choice: "xs \<noteq> [] \<Longrightarrow> ensures (choice xs) (\<lambda>_. True)"
  by (rule ensures_weaken[OF ensures_choice]) auto

lemma ensures_random_random: "ensures random_random (\<lambda>u. 0 \<le> u \<and> u < 1)"
  unfolding ensures_def
proof
  fix g
  obtain r g' where d: "draw g = (r, g')" by (cases "draw g")
  have "r mod 2 ^ 53 < 2 ^ 53" by simp
  hence "(of_nat (r mod 2 ^ 53) :: rat) < of_nat (2 ^ 53)" by (simp only: of_nat_less_iff)
  hence lt: "(of_nat (r mod 2 ^ 53) :: rat) / 2 ^ 53 < 1" by simp
  have ge: "0 \<le> (of_nat (r mod 2 ^ 53) :: rat) / 2 ^ 53" by simp
  have "random_random g = Inr (of_nat (r mod 2 ^ 53) / 2 ^ 53, g')"
    by (simp add: random_random_def d)
  with lt ge show "\<exists>x g'. random_random g = Inr (x, g') \<and> 0 \<le> x \<and> x < 1" by blast
qed

lemma ensures_uniform: "a \<le> b \<Longrightarrow> ensures (uniform a b) (\<lambda>x. a \<le> x \<and> x \<le> b)"
  unfolding uniform_def
proof (rule ensures_bindG[OF ensures_random_random], rule ensures_returnG)
  fix u :: rat assume ab: "a \<le> b" and u: "0 \<le> u \<and> u < 1"
  have "0 \<le> (b - a) * u" using ab u by simp
  moreover have "(b - a) * u \<le> (b - a) * 1" using ab u by (intro mult_left_mono) auto
  ultimately show "a \<le> a + (b - a) * u \<and> a + (b - a) * u \<le> b" by simp
qed

lemma total_uniform: "ensures (uniform a b) (\<lambda>_. True)"
  unfolding uniform_def
  by (rule ensures_bindG[OF ensures_random_random], rule ensures_returnG) simp

lemma total_uuid4_hex8: "ensures (uuid4_hex8 L) (\<lambda>_. True)"
  by (auto simp: ensures_def uuid4_hex8_def split: prod.split)

lemma total_datetime_now: "ensures datetime_now (\<lambda>_. True)"
  by (auto simp: ensures_def datetime_now_def split: prod.split)

lemma sample_loop_length: "k \<le> length pool \<Longrightarrow> length (fst (sample_loop pool k g)) = k"
  by (induction pool k g rule: sample_loop.induct) (auto simp: Let_def split: prod.split)

lemma ensures_sample:
  "0 \<le> k \<Longrightarrow> k \<le> int (length xs) \<Longrightarrow> ensures (sample xs k) (\<lambda>ys. length ys = nat k)"
  unfolding ensures_def sample_def
proof
  fix g assume k: "0 \<le> k" "k \<le> int (length xs)"
  hence "nat k \<le> length xs" by simp
  from sample_loop_length[OF this, of g] k
  show "\<exists>x g'. (if k < 0 \<or> int (length xs) < k then Inl ValueError else Inr (sample_loop xs (nat k) g)) = Inr (x, g') \<and> length x = nat k"
    by (cases "sample_loop xs (nat k) g") auto
qed

lemma total_generate_resource_name: "ensures (generate_resource_name t) (\<lambda>_. True)"
  unfolding generate_resource_name_def Let_def
  by (auto intro!: ensures_returnG ensures_bindG_any total_choice)

lemma total_days_ago_iso: "lo \<le> hi \<Longrightarrow> ensures (days_ago_iso L lo hi) (\<lambda>_. True)"
  unfolding days_ago_iso_def
  by (intro ensures_bindG_any total_datetime_now total_randint ensures_returnG) auto

lemma total_type_slug_id: "ensures (type_slug_id L t) (\<lambda>_. True)"
  unfolding type_slug_id_def
  by (intro ensures_bindG_any total_randint ensures_returnG) auto

lemmas eval_defs = bindE_def py_mul_def py_truediv_def truediv_def assign_mul_def assign_div_def
  zero_costs_def periods_def

lemmas total_intros = ensures_bindG_any total_choice total_days_ago_iso total_generate_resource_name
  total_uuid4_hex8 total_randint total_type_slug_id total_uniform total_datetime_now

lemma ensures_bind_return:
  "ensures m (\<lambda>x. P (f x)) \<Longrightarrow> ensures (bindG m (\<lambda>x. returnG (f x))) P"
  by (rule ensures_bindG[where Q = "\<lambda>x. P (f x)"]) (auto intro: ensures_returnG)

lemma details_ec2: "ensures (generate_resource_details L ''EC2 Instance'') (details_ok L ''EC2 Instance'')"
  unfolding generate_resource_details_def
  apply (simp add: Let_def)
  apply (rule ensures_bind_return)
  apply (intro total_intros ensures_returnG; (simp; fail)?)
  apply (simp add: details_ok_def type_costs_def eval_defs)
  done

lemma ensures_liftG_bind:
  "r = Inr x \<Longrightarrow> ensures (f x) P \<Longrightarrow> ensures (bindG (liftG r) f) P"
  by (simp add: ensures_def bindG_def liftG_def)

lemma bindG_liftG_Inr: "bindG (liftG (Inr x)) f = f x"
  by (simp add: bindG_def liftG_def)

lemma details_rds: "ensures (generate_resource_details L ''RDS Instance'') (details_ok L ''RDS Instance'')"
  unfolding generate_resource_details_def
  apply (simp add: Let_def bindG_liftG_Inr)
  apply (rule ensures_bind_return)
  apply (intro total_intros ensures_returnG; (simp; fail)?)
  apply (simp add: details_ok_def type_costs_def eval_defs)
  done

lemma details_vol: "ensures (generate_resource_details L ''EBS Volume'') (details_ok L ''EBS Volume'')"
  unfolding generate_resource_details_def
  apply (simp add: Let_def)
  apply (rule ensures_bind_return)
  apply (intro total_intros ensures_returnG; (simp; fail)?)
  apply (simp add: details_ok_def type_costs_def eval_defs)
  done

lemma details_snap: "ensures (generate_resource_details L ''EBS Snapshot'') (details_ok L ''EBS Snapshot'')"
  unfolding generate_resource_details_def
  apply (simp add: Let_def)
  apply (rule ensures_bind_return)
  apply (intro total_intros ensures_returnG; (simp; fail)?)
  apply (simp add: details_ok_def type_costs_def eval_defs)
  done

lemma details_ddb: "ensures (generate_resource_details L ''DynamoDB Table'') (details_ok L ''DynamoDB Table'')"
  unfolding generate_resource_details_def
  apply (simp add: Let_def)
  apply (rule ensures_bind_return)
  apply (intro total_intros ensures_returnG; (simp; fail)?)
  apply (simp add: details_ok_def type_costs_def eval_defs)
  done

lemma details_user: "ensures (generate_resource_details L ''IAM User'') (details_ok L ''IAM User'')"
  unfolding generate_resource_details_def
  apply (simp add: Let_def)
  apply (rule ensures_bind_return)
  apply (intro total_intros ensures_returnG; (simp; fail)?)
  apply (simp add: details_ok_def type_costs_def eval_defs)
  done

lemma details_role: "ensures (generate_resource_details L ''IAM Role'') (details_ok L ''IAM Role'')"
  unfolding generate_resource_details_def
  apply (simp add: Let_def)
  apply (rule ensures_bind_return)
  apply (intro total_intros ensures_returnG; (simp; fail)?)
  apply (simp add: details_ok_def type_costs_def eval_defs)
  done

lemma details_eip: "ensures (generate_resource_details L ''Elastic IP'') (details_ok L ''Elastic IP'')"
  unfolding generate_resource_details_def
  apply (simp add: Let_def)
  apply (rule ensures_bind_return)
  apply (intro total_intros ensures_returnG; (simp; fail)?)
  apply (simp add: details_ok_def type_costs_def eval_defs)
  done

lemma details_osd: "ensures (generate_resource_details L ''OpenSearch Domain'') (details_ok L ''OpenSearch Domain'')"
  unfolding generate_resource_details_def
  apply (simp add: Let_def)
  apply (rule ensures_bind_return)
  apply (intro total_intros ensures_returnG; (simp; fail)?)
  apply (simp add: details_ok_def type_costs_def eval_defs)
  done

lemma details_elb: "ensures (generate_resource_details L ''ELB'') (details_ok L ''ELB'')"
  unfolding generate_resource_details_def
  apply (simp add: Let_def)
  apply (rule ensures_bind_return)
  apply (intro total_intros ensures_returnG; (simp; fail)?)
  apply (simp add: details_ok_def type_costs_def eval_defs)
  done

lemma float_items_Some: "float_items d = Some fs \<Longrightarrow> d = map (\<lambda>(k, x). (k, PFloat x)) fs"
  by (induction d arbitrary: fs rule: float_items.induct) auto

lemma costs_view_Some:
  assumes "costs_view c = Some vs"
  shows "c = costs_dict vs \<and> length vs = 5"
proof (cases c)
  case (PDict d)
  with assms obtain fs where fs: "float_items d = Some fs" "map fst fs = periods" "map snd fs = vs"
    by (auto split: option.splits if_splits)
  have len: "length vs = 5" using fs(2,3) by (metis length_map periods_def length_Cons list.size(3) eval_nat_numeral(2,3) semiring_norm(26,27) numeral_One One_nat_def Suc_numeral)
  have "fs = zip periods vs" using fs(2,3) by (metis zip_map_fst_snd)
  hence "map (\<lambda>(k, x). (k, PFloat x)) fs = zip periods (map PFloat vs)"
    by (simp add: zip_map2 case_prod_unfold)
  with float_items_Some[OF fs(1)] PDict len show ?thesis by (simp add: costs_dict_def)
qed (use assms in auto)

lemma costs_view_costs_dict: "length vs = 5 \<Longrightarrow> costs_view (costs_dict vs) = Some vs"
  by (auto simp: costs_dict_def periods_def length_Suc_conv eval_nat_numeral)

lemma details_okD:
  assumes "details_ok L t d"
  shows "\<exists>h dd m. type_costs L t d zero_costs = Inr (costs_dict [h, dd, m, 0, 0]) \<and>
     (t = ''IAM User'' \<or> t = ''IAM Role'' \<longrightarrow> h = 0 \<and> dd = 0 \<and> m = 0)"
proof -
  from assms obtain c where c: "type_costs L t d zero_costs = Inr c"
    by (auto simp: details_ok_def split: sum.splits)
  with assms obtain vs where vs: "costs_view c = Some vs"
    by (auto simp: details_ok_def split: option.splits)
  from costs_view_Some[OF vs] obtain h dd m y l where l: "vs = [h, dd, m, y, l]"
    by (auto simp: length_Suc_conv eval_nat_numeral)
  with assms c vs have "y = 0" "l = 0" "t = ''IAM User'' \<or> t = ''IAM Role'' \<longrightarrow> h = 0 \<and> dd = 0 \<and> m = 0"
    by (auto simp: details_ok_def split: if_splits)
  with costs_view_Some[OF vs] c l show ?thesis by auto
qed

lemma ensures_calculate_resource_costs:
  assumes "details_ok L t d"
  shows "ensures (calculate_resource_costs L t d) (costs_ok t)"
proof -
  from details_okD[OF assms] obtain h dd m where
    tc: "type_costs L t d zero_costs = Inr (costs_dict [h, dd, m, 0, 0])"
    and iam: "t = ''IAM User'' \<or> t = ''IAM Role'' \<longrightarrow> h = 0 \<and> dd = 0 \<and> m = 0" by blast
  have fin: "costs_ok t (PDict [(''hourly'', PFloat h), (''daily'', PFloat dd),
      (''monthly'', PFloat m), (''yearly'', PFloat (m * 12)),
      (''lifetime'', PFloat (m * 12 * rat_of_int k))])" if "- 1 \<le> k \<and> k \<le> 3" for k
    using iam that by (auto simp: costs_ok_def periods_def)
  show ?thesis
    unfolding calculate_resource_costs_def Let_def tc
    apply (simp add: bindG_liftG_Inr costs_dict_def periods_def assign_mul_def bindE_def py_mul_def)
    apply (rule ensures_bindG[OF ensures_randint])
     apply simp
    apply (rule ensures_returnG)
    apply (erule fin)
    done
qed

lemma length_type_reasons_all:
  "list_all (\<lambda>t. ensures (type_reasons L t da c m n []) (\<lambda>rs. length rs = 3)) resource_types"
proof -
  have r: "ensures (returnG [a, b, c]) (\<lambda>rs. length rs = 3)" for a b c :: string
    by (rule ensures_returnG) simp
  note step = ensures_bindG_any total_randint total_uniform r
  have 1: "ensures (type_reasons L ''EC2 Instance'' da c m n []) (\<lambda>rs. length rs = 3)"
    by (simp add: type_reasons_def r)
  have 2: "ensures (type_reasons L ''RDS Instance'' da c m n []) (\<lambda>rs. length rs = 3)"
    by (simp add: type_reasons_def Let_def) (intro step; simp)
  have 3: "ensures (type_reasons L ''ELB'' da c m n []) (\<lambda>rs. length rs = 3)"
    by (simp add: type_reasons_def Let_def) (intro step; simp)
  have 4: "ensures (type_reasons L ''EBS Volume'' da c m n []) (\<lambda>rs. length rs = 3)"
    by (simp add: type_reasons_def Let_def) (intro step; simp)
  have 5: "ensures (type_reasons L ''EBS Snapshot'' da c m n []) (\<lambda>rs. length rs = 3)"
    by (simp add: type_reasons_def Let_def) (intro step; simp)
  have 6: "ensures (type_reasons L ''DynamoDB Table'' da c m n []) (\<lambda>rs. length rs = 3)"
    by (simp add: type_reasons_def Let_def) (intro step; simp)
  have 7: "ensures (type_reasons L ''IAM User'' da c m n []) (\<lambda>rs. length rs = 3)"
    by (simp add: type_reasons_def r)
  have 8: "ensures (type_reasons L ''IAM Role'' da c m n []) (\<lambda>rs. length rs = 3)"
    by (simp add: type_reasons_def r)
  have 9: "ensures (type_reasons L ''Elastic IP'' da c m n []) (\<lambda>rs. length rs = 3)"
    by (simp add: type_reasons_def r)
  have 10: "ensures (type_reasons L ''OpenSearch Domain'' da c m n []) (\<lambda>rs. length rs = 3)"
    by (simp add: type_reasons_def Let_def) (intro step; simp)
  show ?thesis
    by (simp add: resource_types_def 1 2 3 4 5 6 7 8 9 10)
qed

lemma length_type_reasons:
  assumes "t \<in> set resource_types"
  shows "ensures (type_reasons L t da c m n []) (\<lambda>rs. length rs = 3)"
  using length_type_reasons_all[of L da c m n] assms by (simp only: list_all_iff)

lemma total_generate_resource_reasons:
  assumes "t \<in> set resource_types"
  shows "ensures (generate_resource_reasons L t da) (\<lambda>_. True)"
  unfolding generate_resource_reasons_def Let_def
  apply (rule ensures_bindG_any[OF total_uniform])
  apply (rule ensures_bindG_any[OF total_uniform])
  apply (rule ensures_bindG_any[OF total_uniform])
  apply (rule ensures_bindG[OF length_type_reasons[OF assms]])
  apply (rule ensures_bindG[OF ensures_randint])
   apply simp
  apply (rule ensures_weaken[OF ensures_sample])
    apply simp_all
  done

lemma ensures_generate_random_regions: "ensures generate_random_regions (\<lambda>rs. rs \<noteq> [])"
  unfolding generate_random_regions_def Let_def
  apply (rule ensures_bindG[OF ensures_randint])
   apply simp
  apply (rule ensures_weaken[OF ensures_sample])
    apply auto
  done

lemma py_trunc_pos: "300 \<le> x \<Longrightarrow> py_trunc x \<noteq> 0"
proof -
  assume x: "300 \<le> x"
  hence f: "(300::int) \<le> \<lfloor>x\<rfloor>" by linarith
  from x have "0 \<le> x" by linarith
  hence "py_trunc x = \<lfloor>x\<rfloor>" by (simp add: py_trunc_def)
  moreover from f have "\<lfloor>x\<rfloor> \<noteq> 0" by linarith
  ultimately show ?thesis by metis
qed

lemma ensures_calculate_scan_metrics:
  "ensures (calculate_scan_metrics L tr) (\<lambda>sm. \<exists>vs. length vs = 11 \<and> sm = metrics_dict tr vs)"
  unfolding calculate_scan_metrics_def Let_def
  apply (rule ensures_bindG_any[OF total_randint])
   apply simp
  apply (simp add: truediv_def bindG_liftG_Inr)
  apply (rule ensures_bindG[OF ensures_uniform])
   apply simp
  apply (rule ensures_bindG_any[OF total_randint])
   apply simp
  subgoal for pw tps fs
    apply (subgoal_tac "py_trunc (tps * 60) \<noteq> 0")
     prefer 2
     apply (rule py_trunc_pos)
     apply simp
    apply (simp add: bindG_liftG_Inr)
    apply (intro ensures_bindG_any total_datetime_now total_uniform)
    apply (rule ensures_returnG)
    subgoal for now tc
      apply (rule exI[where x = "[PStr (isoformat L (now + timedelta_days 365)), PFloat tc,
          PInt (py_trunc (tps * 60)), PInt (py_trunc (tps * 60) - fs), PInt fs, PFloat tps,
          PFloat (py_round (60000 / rat_of_int (py_trunc (tps * 60))) 2), PFloat (rat_of_int pw * 10),
          PInt pw, PInt 10, PStr ''1m0s'']"])
      apply (simp add: metrics_dict_def)
      done
    done
  done

lemma map_of_int_items: "map_of (int_items cnt) k = map_option PInt (map_of cnt k)"
  by (induction cnt) (auto simp: int_items_def)

lemma update_int_items: "AList.update k (PInt n) (int_items cnt) = int_items (AList.update k n cnt)"
  by (induction cnt) (auto simp: int_items_def)

lemma ensures_generate_resource_details:
  assumes "t \<in> set resource_types"
  shows "ensures (generate_resource_details L t) (details_ok L t)"
proof -
  have "list_all (\<lambda>t. ensures (generate_resource_details L t) (details_ok L t)) resource_types"
    by (simp add: resource_types_def details_ec2 details_rds details_elb details_vol details_snap
        details_ddb details_user details_role details_eip details_osd)
  with assms show ?thesis by (simp only: list_all_iff)
qed

lemma count_step:
  "\<exists>cnt'. bindE (bindE (getitem (loop_doc c cnt r1 r2 r3 rs) ''ScanMetrics'') (\<lambda>sm.
            bindE (getitem sm ''ResourcesByType'') (\<lambda>by_type. contains by_type t)))
          (\<lambda>counted. bindE (if counted then Inr (loop_doc c cnt r1 r2 r3 rs)
            else modify_at [''ScanMetrics'', ''ResourcesByType'']
                   (\<lambda>by_type. setitem by_type t (PInt 0)) (loop_doc c cnt r1 r2 r3 rs))
       (modify_at [''ScanMetrics'', ''ResourcesByType''] (\<lambda>by_type. iadd_item by_type t (PInt 1))))
     = Inr (loop_doc c cnt' r1 r2 r3 rs)"
proof (cases "map_of cnt t")
  case None
  show ?thesis
    apply (rule exI[where x = "AList.update t 1 (AList.update t 0 cnt)"])
    using None
    apply (simp add: loop_doc_def bindE_def map_of_int_items update_int_items iadd_item_def
        AList.update_conv')
    done
next
  case (Some n)
  show ?thesis
    apply (rule exI[where x = "AList.update t (n + 1) cnt"])
    using Some
    apply (simp add: loop_doc_def bindE_def map_of_int_items update_int_items iadd_item_def
        AList.update_conv')
    done
qed

lemma liftG_bind: "bindG (liftG r) (\<lambda>x. liftG (f x)) = liftG (bindE r f)"
  by (cases r) (auto simp: bindG_def liftG_def bindE_def)

lemma ensures_resource_body:
  assumes t: "t \<in> set resource_types" and ne: "r1 \<noteq> []" "r2 \<noteq> []" "r3 \<noteq> []"
  shows "ensures (resource_body L t i (loop_doc c cnt r1 r2 r3 rs))
     (\<lambda>d. \<exists>cnt' r. d = loop_doc c cnt' r1 r2 r3 (rs @ [r]) \<and> resource_ok t r)"
proof -
  let ?D = "loop_doc c cnt r1 r2 r3 rs"
  let ?ids = "[''123456789012'', ''234567890123'', ''345678901234'']"
  have a: "bindE (getitem ?D ''AccountsAndRegions'') dict_keys = Inr ?ids"
    by (simp add: loop_doc_def bindE_def)
  have b: "\<exists>rg. bindE (getitem ?D ''AccountsAndRegions'') (\<lambda>ar.
            bindE (getitem ar x) list_items) = Inr rg \<and> rg \<noteq> []" if "x \<in> set ?ids" for x
    using that ne by (auto simp: loop_doc_def bindE_def)
  have c: "\<exists>nm. bindE (getitem ?D ''AccountNames'') (\<lambda>an. getitem an x) = Inr nm"
    if "x \<in> set ?ids" for x
    using that by (auto simp: loop_doc_def bindE_def)
  have d: "modify_at [''UnusedResources''] (\<lambda>rs. list_append rs r) ?D
      = Inr (loop_doc c cnt r1 r2 r3 (rs @ [r]))" for r
    by (simp add: loop_doc_def bindE_def)
  show ?thesis
    unfolding resource_body_def
    apply (rule ensures_liftG_bind[OF a])
    apply (rule ensures_bindG[OF ensures_choice])
     apply simp
    subgoal premises acc for account_id
      apply (insert b[OF acc] c[OF acc])
      apply (elim exE conjE)
      apply (rule ensures_liftG_bind, assumption)
      apply (rule ensures_bindG_any[OF total_choice], assumption)
      apply (rule ensures_bindG[OF ensures_generate_resource_details[OF t]])
      apply (rule ensures_bindG_any[OF total_type_slug_id])
      apply (rule ensures_bindG_any[OF total_generate_resource_name])
      apply (rule ensures_liftG_bind, assumption)
      apply (rule ensures_bindG_any[OF total_days_ago_iso])
       apply simp
      apply (rule ensures_bindG_any[OF total_uniform])
      apply (rule ensures_bindG_any[OF total_generate_resource_reasons[OF t]])
      apply (rule ensures_bindG[OF ensures_calculate_resource_costs], assumption)
      apply (simp only: Let_def)
      apply (rule ensures_liftG_bind[OF d])
      apply (simp only: liftG_bind)
      apply (rule exE[OF count_step])
      apply (erule ensures_liftG)
      apply (intro exI conjI)
       apply (rule refl)
      apply (simp add: resource_ok_def)
      done
    done
qed

lemma ensures_for_each_gen:
  assumes step: "\<And>pre x s. x \<in> set xs \<Longrightarrow> I pre s \<Longrightarrow> ensures (body x s) (I (pre @ [x]))"
  shows "set suf \<subseteq> set xs \<Longrightarrow> I pre s \<Longrightarrow> ensures (for_each suf body s) (I (pre @ suf))"
proof (induction suf arbitrary: pre s)
  case Nil
  then show ?case by (simp add: ensures_returnG)
next
  case (Cons x suf)
  have "ensures (body x s) (I (pre @ [x]))" using Cons.prems by (intro step) auto
  moreover have "ensures (for_each suf body s') (I (pre @ x # suf))" if "I (pre @ [x]) s'" for s'
    using Cons.IH[of "pre @ [x]" s'] Cons.prems that by simp
  ultimately show ?case by (simp add: ensures_bindG)
qed

lemma ensures_for_each:
  assumes "I [] s" and "\<And>pre x s. x \<in> set xs \<Longrightarrow> I pre s \<Longrightarrow> ensures (body x s) (I (pre @ [x]))"
  shows "ensures (for_each xs body s) (I xs)"
  using ensures_for_each_gen[of xs I body xs "[]" s] assms by simp

lemma ensures_type_body:
  assumes t: "t \<in> set resource_types" and ne: "r1 \<noteq> []" "r2 \<noteq> []" "r3 \<noteq> []"
  shows "ensures (type_body L t (loop_doc c cnt r1 r2 r3 rs))
     (\<lambda>d. \<exists>cnt' b. d = loop_doc c cnt' r1 r2 r3 (rs @ b) \<and> block_ok t b)"
  unfolding type_body_def
proof (rule ensures_bindG[OF ensures_randint])
  show "(5::int) \<le> 15" by simp
next
  fix n :: int assume n: "5 \<le> n \<and> n \<le> 15"
  let ?I = "\<lambda>pre d. \<exists>cnt' b. d = loop_doc c cnt' r1 r2 r3 (rs @ b) \<and> length b = length (pre :: int list)
     \<and> list_all (resource_ok t) b"
  have "ensures (for_each (map int [0..<nat n]) (resource_body L t) (loop_doc c cnt r1 r2 r3 rs))
     (?I (map int [0..<nat n]))"
  proof (rule ensures_for_each)
    show "?I [] (loop_doc c cnt r1 r2 r3 rs)" by (intro exI[where x = cnt] exI[where x = "[]"]) simp
  next
    fix pre :: "int list" and i s
    assume "?I pre s"
    then obtain cnt' b where s: "s = loop_doc c cnt' r1 r2 r3 (rs @ b)"
      and b: "length b = length pre" "list_all (resource_ok t) b" by blast
    show "ensures (resource_body L t i s) (?I (pre @ [i]))"
      unfolding s
    proof (rule ensures_weaken[OF ensures_resource_body[OF t ne]])
      fix d assume "\<exists>cnt'' r. d = loop_doc c cnt'' r1 r2 r3 ((rs @ b) @ [r]) \<and> resource_ok t r"
      then obtain cnt'' r where "d = loop_doc c cnt'' r1 r2 r3 (rs @ (b @ [r]))" "resource_ok t r"
        by auto
      with b show "?I (pre @ [i]) d"
        by (intro exI[where x = cnt''] exI[where x = "b @ [r]"]) simp
    qed
  qed
  then show "ensures (for_each (map int [0..<nat n]) (resource_body L t) (loop_doc c cnt r1 r2 r3 rs))
     (\<lambda>d. \<exists>cnt' b. d = loop_doc c cnt' r1 r2 r3 (rs @ b) \<and> block_ok t b)"
  proof (rule ensures_weaken)
    fix d assume "?I (map int [0..<nat n]) d"
    then obtain cnt' b where "d = loop_doc c cnt' r1 r2 r3 (rs @ b)" "length b = nat n"
      "list_all (resource_ok t) b" by auto
    moreover from n have "5 \<le> nat n \<and> nat n \<le> 15" by linarith
    ultimately show "\<exists>cnt' b. d = loop_doc c cnt' r1 r2 r3 (rs @ b) \<and> block_ok t b"
      by (intro exI[where x = cnt'] exI[where x = b]) (simp add: block_ok_def)
  qed
qed

lemma ensures_type_loop:
  assumes ne: "r1 \<noteq> []" "r2 \<noteq> []" "r3 \<noteq> []"
  shows "ensures (for_each resource_types (type_body L) (loop_doc c [] r1 r2 r3 []))
     (\<lambda>d. \<exists>cnt bs. d = loop_doc c cnt r1 r2 r3 (concat bs) \<and> list_all2 block_ok resource_types bs)"
proof (rule ensures_for_each[where I = "\<lambda>pre d. \<exists>cnt bs. d = loop_doc c cnt r1 r2 r3 (concat bs)
     \<and> list_all2 block_ok pre bs"])
  show "\<exists>cnt bs. loop_doc c [] r1 r2 r3 [] = loop_doc c cnt r1 r2 r3 (concat bs) \<and> list_all2 block_ok [] bs"
    by (intro exI[where x = "[]"]) simp
next
  fix pre t s
  assume t: "t \<in> set resource_types"
    and "\<exists>cnt bs. s = loop_doc c cnt r1 r2 r3 (concat bs) \<and> list_all2 block_ok pre bs"
  then obtain cnt bs where s: "s = loop_doc c cnt r1 r2 r3 (concat bs)" and bs: "list_all2 block_ok pre bs"
    by blast
  show "ensures (type_body L t s)
     (\<lambda>d. \<exists>cnt bs. d = loop_doc c cnt r1 r2 r3 (concat bs) \<and> list_all2 block_ok (pre @ [t]) bs)"
    unfolding s
  proof (rule ensures_weaken[OF ensures_type_body[OF t ne]])
    fix d assume "\<exists>cnt' b. d = loop_doc c cnt' r1 r2 r3 (concat bs @ b) \<and> block_ok t b"
    then obtain cnt' b where d: "d = loop_doc c cnt' r1 r2 r3 (concat bs @ b)" and b: "block_ok t b"
      by blast
    from bs b have "list_all2 block_ok (pre @ [t]) (bs @ [b])"
      by (intro list_all2_appendI) simp_all
    with d show "\<exists>cnt bs. d = loop_doc c cnt r1 r2 r3 (concat bs) \<and> list_all2 block_ok (pre @ [t]) bs"
      by (intro exI[where x = cnt'] exI[where x = "bs @ [b]"]) simp
  qed
qed

lemma map_of_keyed: "map_of (map (\<lambda>t. (t, f t)) ts) t = (if t \<in> set ts then Some (f t) else None)"
  by (induction ts) auto

lemma update_keyed_absent:
  "t \<notin> set ts \<Longrightarrow> map (\<lambda>t'. (t', if t' = t then v else f t')) ts = map (\<lambda>t. (t, f t)) ts"
  by (induction ts) auto

lemma distinct_present_types: "distinct (present_types vs)"
  by (simp add: present_types_def)

lemma update_keyed_in:
  "t \<in> set ts \<Longrightarrow> distinct ts \<Longrightarrow>
     AList.update t v (map (\<lambda>t. (t, f t)) ts) = map (\<lambda>t'. (t', if t' = t then v else f t')) ts"
  by (induction ts) (auto simp: update_keyed_absent)

lemma update_keyed_notin:
  "t \<notin> set ts \<Longrightarrow> AList.update t v (map (\<lambda>t. (t, f t)) ts)
     = map (\<lambda>t'. (t', if t' = t then v else f t')) (ts @ [t])"
  by (induction ts) auto

lemma set_present_types: "set (present_types vs) = fst ` set vs"
  by (simp add: present_types_def)

lemma present_types_snoc:
  "present_types (vs @ [(t, cs)]) =
     (if t \<in> set (present_types vs) then present_types vs else present_types vs @ [t])"
  by (simp add: present_types_def)

lemma period_sums_snoc:
  "period_sums (vs @ [(t, [c0, c1, c2, c3, c4])]) =
     map (\<lambda>i. period_sums vs ! i + [c0, c1, c2, c3, c4] ! i) [0, 1, 2, 3, 4]"
  by (simp add: period_sums_def)

lemma period_sums_5: "\<exists>s0 s1 s2 s3 s4. period_sums vs = [s0, s1, s2, s3, s4]"
  by (simp add: period_sums_def)

lemma period_loop:
  assumes "getitem r ''costs'' = Inr (costs_dict [c0, c1, c2, c3, c4])"
    and "map_of cb t = Some (PDict ((''type'', tv) # zip periods (map PFloat [a0, a1, a2, a3, a4])))"
  shows "for_eachE periods (period_body r t) (PDict cb, costs_dict [s0, s1, s2, s3, s4])
     = Inr (PDict (AList.update t
              (PDict ((''type'', tv) # zip periods (map PFloat [a0 + c0, a1 + c1, a2 + c2, a3 + c3, a4 + c4]))) cb),
            costs_dict [s0 + c0, s1 + c1, s2 + c2, s3 + c3, s4 + c4])"
  using assms
  by (simp add: periods_def period_body_def bindE_def costs_dict_def iadd_item_def AList.update_conv')

lemma group_body_step:
  assumes "resource_view r = Some (t, cs)"
  shows "group_body r (group_state vs) = Inr (group_state (vs @ [(t, cs)]))"
proof -
  from assms obtain c where ty: "getitem r ''type'' = Inr (PStr t)"
    and co: "getitem r ''costs'' = Inr c" and cv: "costs_view c = Some cs"
    by (auto simp: resource_view_def split: sum.splits pyval.splits option.splits)
  from costs_view_Some[OF cv] have c: "c = costs_dict cs" and len: "length cs = 5" by auto
  from len obtain c0 c1 c2 c3 c4 where cs: "cs = [c0, c1, c2, c3, c4]"
    by (auto simp: length_Suc_conv eval_nat_numeral)
  let ?ts = "present_types vs"
  let ?vs1 = "vs @ [(t, cs)]"
  let ?ts1 = "present_types ?vs1"
  obtain a0 a1 a2 a3 a4 where as: "period_sums (filter (\<lambda>v. fst v = t) vs) = [a0, a1, a2, a3, a4]"
    using period_sums_5 by blast
  obtain s0 s1 s2 s3 s4 where ss: "period_sums vs = [s0, s1, s2, s3, s4]"
    using period_sums_5 by blast
  define e0 where "e0 = PDict ((''type'', PStr t) # zip periods (map PFloat [a0, a1, a2, a3, a4]))"
  define e1 where "e1 = PDict ((''type'', PStr t) #
     zip periods (map PFloat [a0 + c0, a1 + c1, a2 + c2, a3 + c3, a4 + c4]))"
  define cb1 where "cb1 = map (\<lambda>t'. (t', breakdown_entry vs t')) ?ts1"
  have f_t: "breakdown_entry vs t = e0" by (simp add: breakdown_entry_def as e0_def)
  have in1: "t \<in> set ?ts1" by (simp add: set_present_types)
  have A: "contains (PDict (map (\<lambda>t. (t, breakdown_entry vs t)) (present_types vs))) t
      = Inr (t \<in> set ?ts)"
    by (simp add: map_of_keyed)
  have B: "(if t \<in> set ?ts then Inr (PDict (map (\<lambda>t. (t, breakdown_entry vs t)) (present_types vs)))
       else setitem (PDict (map (\<lambda>t. (t, breakdown_entry vs t)) (present_types vs))) t
              (PDict [(''type'', PStr t), (''hourly'', PFloat 0), (''daily'', PFloat 0),
                      (''monthly'', PFloat 0), (''yearly'', PFloat 0), (''lifetime'', PFloat 0)]))
      = Inr (PDict cb1)"
  proof (cases "t \<in> set ?ts")
    case True
    then show ?thesis by (simp add: cb1_def present_types_snoc)
  next
    case False
    hence "filter (\<lambda>v. fst v = t) vs = []"
      by (auto simp: set_present_types filter_empty_conv)
    hence z: "breakdown_entry vs t = PDict [(''type'', PStr t), (''hourly'', PFloat 0),
        (''daily'', PFloat 0), (''monthly'', PFloat 0), (''yearly'', PFloat 0), (''lifetime'', PFloat 0)]"
      by (simp add: breakdown_entry_def period_sums_def periods_def)
    have "map (\<lambda>t'. (t', if t' = t then breakdown_entry vs t else breakdown_entry vs t')) (?ts @ [t])
        = map (\<lambda>t'. (t', breakdown_entry vs t')) (?ts @ [t])"
      by (intro map_cong) auto
    with False show ?thesis
      by (simp add: cb1_def present_types_snoc update_keyed_notin z[symmetric] del: map_append)
  qed
  have m1: "map_of cb1 t = Some (PDict ((''type'', PStr t) # zip periods (map PFloat [a0, a1, a2, a3, a4])))"
    using in1 f_t by (simp add: cb1_def map_of_keyed e0_def)
  have co': "getitem r ''costs'' = Inr (costs_dict [c0, c1, c2, c3, c4])" using co c cs by simp
  have loop: "for_eachE periods (period_body r t) (PDict cb1, costs_dict [s0, s1, s2, s3, s4])
      = Inr (PDict (AList.update t e1 cb1), costs_dict [s0 + c0, s1 + c1, s2 + c2, s3 + c3, s4 + c4])"
    unfolding e1_def by (rule period_loop[OF co' m1])
  have e1: "breakdown_entry ?vs1 t = e1"
    by (simp add: breakdown_entry_def e1_def cs period_sums_snoc as)
  have other: "breakdown_entry ?vs1 t' = breakdown_entry vs t'" if "t' \<noteq> t" for t'
    using that by (simp add: breakdown_entry_def)
  have "AList.update t e1 cb1 = map (\<lambda>t'. (t', if t' = t then e1 else breakdown_entry vs t')) ?ts1"
    unfolding cb1_def by (rule update_keyed_in[OF in1 distinct_present_types])
  also have "\<dots> = map (\<lambda>t'. (t', breakdown_entry ?vs1 t')) ?ts1"
    by (intro map_cong) (auto simp: e1 other)
  finally have fin1: "AList.update t e1 cb1 = map (\<lambda>t'. (t', breakdown_entry ?vs1 t')) ?ts1" .
  have fin2: "[s0 + c0, s1 + c1, s2 + c2, s3 + c3, s4 + c4] = period_sums ?vs1"
    by (simp add: cs period_sums_snoc ss)
  have loop': "for_eachE periods (period_body r t) (PDict cb1, costs_dict (period_sums vs))
      = Inr (group_state ?vs1)"
    using loop by (simp add: fin1 fin2 ss group_state_def)
  show ?thesis
    unfolding group_body_def group_state_def[of vs]
    by (simp only: prod.case ty bindE_def sum.case str_value.simps A B loop')
qed

lemma group_loop:
  "map resource_view rs = map Some vs \<Longrightarrow>
     for_eachE rs group_body (group_state pre) = Inr (group_state (pre @ vs))"
proof (induction rs arbitrary: vs pre)
  case Nil
  then show ?case by simp
next
  case (Cons r rs)
  then obtain v vs' where vs: "vs = v # vs'" and r: "resource_view r = Some v"
    and rest: "map resource_view rs = map Some vs'" by (cases vs) auto
  obtain t cs where v: "v = (t, cs)" by (cases v)
  from group_body_step[OF r[unfolded v], of pre] Cons.IH[OF rest, of "pre @ [v]"]
  show ?case by (simp add: bindE_def vs v)
qed

lemma group_state_Nil: "group_state [] = (PDict [], zero_costs)"
  by (simp add: group_state_def present_types_def period_sums_def costs_dict_def zero_costs_def periods_def)

lemma group_resources:
  "map resource_view rs = map Some vs \<Longrightarrow>
     for_eachE rs group_body (PDict [], zero_costs) = Inr (group_state vs)"
  using group_loop[of rs vs "[]"] by (simp add: group_state_Nil)

lemma resource_ok_view:
  assumes "resource_ok t r"
  shows "\<exists>v. resource_view r = Some v \<and> view_ok t v"
proof -
  from assms obtain c where ty: "getitem r ''type'' = Inr (PStr t)"
    and co: "getitem r ''costs'' = Inr c" and ok: "costs_ok t c"
    by (auto simp: resource_ok_def split: sum.splits pyval.splits)
  from ok obtain cs where cv: "costs_view c = Some cs"
    by (auto simp: costs_ok_def split: option.splits)
  with ty co ok show ?thesis by (simp add: resource_view_def view_ok_def costs_ok_def)
qed

lemma block_views:
  "list_all (resource_ok t) b \<Longrightarrow>
     \<exists>ws. map resource_view b = map Some ws \<and> list_all (view_ok t) ws"
proof (induction b)
  case Nil
  then show ?case by simp
next
  case (Cons r b)
  then obtain ws where ws: "map resource_view b = map Some ws" "list_all (view_ok t) ws" by auto
  from Cons.prems resource_ok_view[of t r] obtain v where "resource_view r = Some v" "view_ok t v"
    by auto
  with ws show ?case by (intro exI[where x = "v # ws"]) simp
qed

lemma blocks_views:
  "list_all2 block_ok ts bs \<Longrightarrow>
     \<exists>vss. map resource_view (concat bs) = map Some (concat vss) \<and> list_all2 views_ok ts vss"
proof (induction rule: list_all2_induct)
  case Nil
  then show ?case by simp
next
  case (Cons t ts b bs)
  then obtain vss where vss: "map resource_view (concat bs) = map Some (concat vss)"
    "list_all2 views_ok ts vss" by blast
  from Cons.hyps(1) block_views[of t b] obtain ws where ws: "map resource_view b = map Some ws"
    "list_all (view_ok t) ws" by (auto simp: block_ok_def)
  from ws(1) have "length ws = length b" by (metis length_map)
  with Cons.hyps(1) ws(2) have "views_ok t ws" by (simp add: block_ok_def views_ok_def)
  with vss ws(1) show ?case by (intro exI[where x = "ws # vss"]) simp
qed

lemma initial_doc:
  "PDict [
         (''ScanMetrics'', PDict [
            (''CompletedAt'', c),
            (''TotalResources'', PInt 0),
            (''ResourcesByType'', PDict [])]),
         (''AccountsAndRegions'', PDict [
            (''123456789012'', PList (map PStr regions1)),
            (''234567890123'', PList (map PStr regions2)),
            (''345678901234'', PList (map PStr regions3))]),
         (''AccountNames'', PDict [
            (''123456789012'', PStr ''Production''),
            (''234567890123'', PStr ''Staging''),
            (''345678901234'', PStr ''Development'')]),
         (''UnusedResources'', PList [])] = loop_doc c [] regions1 regions2 regions3 []"
  by (simp add: loop_doc_def int_items_def)

lemma len_loop_doc:
  "bindE (getitem (loop_doc c cnt r1 r2 r3 rs) ''UnusedResources'') py_len = Inr (int (length rs))"
  by (simp add: loop_doc_def bindE_def)

lemma set_total_resources:
  "modify_at [''ScanMetrics''] (\<lambda>sm. setitem sm ''TotalResources'' (PInt n)) (loop_doc c cnt r1 r2 r3 rs)
     = Inr (counted_doc (PDict [(''CompletedAt'', c), (''TotalResources'', PInt n),
              (''ResourcesByType'', PDict (int_items cnt))]) r1 r2 r3 rs)"
  by (simp add: loop_doc_def counted_doc_def bindE_def accounts_and_regions_def account_names_def)

lemma get_total_resources:
  "bindE (getitem (counted_doc (PDict [(''CompletedAt'', c), (''TotalResources'', PInt n),
              (''ResourcesByType'', b)]) r1 r2 r3 rs) ''ScanMetrics'')
       (\<lambda>sm. getitem sm ''TotalResources'') = Inr (PInt n)"
  by (simp add: counted_doc_def bindE_def)

lemma length_11: "length (ms :: 'a list) = 11 \<Longrightarrow>
   \<exists>a b c d e f g h i j k. ms = [a, b, c, d, e, f, g, h, i, j, k]"
  by (auto simp: length_Suc_conv eval_nat_numeral)

lemma update_scan_metrics:
  assumes "length ms = 11"
  shows "modify_at [''ScanMetrics''] (\<lambda>sm. dict_update sm (metrics_dict tr ms))
       (counted_doc (PDict [(''CompletedAt'', c), (''TotalResources'', n), (''ResourcesByType'', b)])
          r1 r2 r3 rs)
     = Inr (counted_doc (metrics_dict tr ms) r1 r2 r3 rs)"
proof -
  from length_11[OF assms] obtain v0 v1 v2 v3 v4 v5 v6 v7 v8 v9 v10
    where ms: "ms = [v0, v1, v2, v3, v4, v5, v6, v7, v8, v9, v10]" by blast
  show ?thesis
    by (simp add: ms metrics_dict_def counted_doc_def bindE_def)
qed

lemma resources_counted_doc:
  "bindE (getitem (counted_doc sm r1 r2 r3 rs) ''UnusedResources'') list_items = Inr rs"
  by (simp add: counted_doc_def bindE_def)

lemma values_group_state:
  "dict_values (fst (group_state vs)) = Inr (map (breakdown_entry vs) (present_types vs))"
  by (simp add: group_state_def comp_def)

lemma finish_report:
  "bindE (setitem (counted_doc (metrics_dict (PInt (int (length rs))) ms) r1 r2 r3 rs) ''CostBreakdown''
            (PList (map (breakdown_entry vs) (present_types vs))))
       (\<lambda>data. setitem data ''TotalCosts'' (snd (group_state vs)))
     = Inr (report ms r1 r2 r3 rs vs)"
  by (simp add: counted_doc_def report_def bindE_def group_state_def)

lemma bindG_returnG: "bindG m returnG = m"
  by (rule ext) (simp add: bindG_def returnG_def split: sum.split)

lemma ensures_generate_sample_data: "ensures (generate_sample_data L) report_ok"
  unfolding generate_sample_data_def
  apply (rule ensures_bindG_any[OF total_datetime_now])
  apply (rule ensures_bindG[OF ensures_generate_random_regions])
  apply (rule ensures_bindG[OF ensures_generate_random_regions])
  apply (rule ensures_bindG[OF ensures_generate_random_regions])
  apply (simp only: Let_def initial_doc)
  apply (rule ensures_bindG[OF ensures_type_loop], assumption+)
  apply (elim exE conjE)
  subgoal for now r1 r2 r3 d cnt bs
    apply (drule blocks_views)
    apply (elim exE conjE)
    subgoal for vss
      apply (simp only:)
      apply (rule ensures_liftG_bind[OF len_loop_doc])
      apply (rule ensures_liftG_bind[OF set_total_resources])
      apply (rule ensures_liftG_bind[OF get_total_resources])
      apply (rule ensures_bindG[OF ensures_calculate_scan_metrics])
      apply (elim exE conjE)
      apply (simp only:)
      apply (rule ensures_liftG_bind[OF update_scan_metrics], assumption)
      apply (rule ensures_liftG_bind[OF resources_counted_doc])
      apply (rule ensures_liftG_bind[OF group_resources], assumption)
      apply (rule ensures_liftG_bind[OF values_group_state])
      apply (simp only: bindG_returnG liftG_bind)
      apply (rule ensures_liftG[OF finish_report])
      apply (simp only: report_ok_def)
      apply (intro exI conjI)
         prefer 2
         apply (rule refl)
        apply assumption+
      done
    done
  done

lemma gsd_report: "\<exists>d g'. generate_sample_data L g = Inr (d, g') \<and> report_ok d"
  using ensures_generate_sample_data[of L] by (simp add: ensures_def)

lemma metrics_dict_items:
  "getitem (metrics_dict tr ms) ''TotalResources'' = Inr tr"
  "getitem (metrics_dict tr ms) ''ResourcesByType'' = Inr (PDict [])"
  by (simp_all add: metrics_dict_def)

lemma report_items:
  "getitem (report ms r1 r2 r3 rs vs) ''ScanMetrics'' = Inr (metrics_dict (PInt (int (length rs))) ms)"
  "getitem (report ms r1 r2 r3 rs vs) ''UnusedResources'' = Inr (PList rs)"
  "getitem (report ms r1 r2 r3 rs vs) ''CostBreakdown''
     = Inr (PList (map (breakdown_entry vs) (present_types vs)))"
  "getitem (report ms r1 r2 r3 rs vs) ''TotalCosts'' = Inr (costs_dict (period_sums vs))"
  by (simp_all add: report_def)

lemma report_keys:
  "dict_keys (report ms r1 r2 r3 rs vs) = Inr [''ScanMetrics'', ''AccountsAndRegions'',
     ''AccountNames'', ''UnusedResources'', ''CostBreakdown'', ''TotalCosts'']"
  by (simp add: report_def)

lemma view_ok_type: "view_ok t v \<Longrightarrow> fst v = t"
  by (simp add: view_ok_def)


lemma view_ok_iam:
  "view_ok t v \<Longrightarrow> t = ''IAM User'' \<or> t = ''IAM Role'' \<Longrightarrow> snd v = [0, 0, 0, 0, 0]"
  by (auto simp: view_ok_def split: list.splits if_splits)

lemma filter_other_block:
  "list_all (\<lambda>v. fst v = t') ws \<Longrightarrow> t \<noteq> t' \<Longrightarrow> filter (\<lambda>v. fst v = t) ws = []"
  by (induction ws) auto

lemma filter_own_block: "list_all (\<lambda>v. fst v = t) ws \<Longrightarrow> filter (\<lambda>v. fst v = t) ws = ws"
  by (induction ws) auto

lemma filter_absent:
  "list_all2 (\<lambda>t' ws. list_all (\<lambda>v. fst v = t') ws) ts vss \<Longrightarrow> t \<notin> set ts \<Longrightarrow>
     filter (\<lambda>v. fst v = t) (concat vss) = []"
  by (induction rule: list_all2_induct) (auto simp: filter_other_block)

lemma filter_blocks:
  "list_all2 (\<lambda>t ws. list_all (\<lambda>v. fst v = t) ws) ts vss \<Longrightarrow> distinct ts \<Longrightarrow>
     map (\<lambda>t. filter (\<lambda>v. fst v = t) (concat vss)) ts = vss"
proof (induction rule: list_all2_induct)
  case Nil
  then show ?case by simp
next
  case (Cons t ts ws vss)
  have head: "filter (\<lambda>v. fst v = t) (ws @ concat vss) = ws"
    using Cons by (simp add: filter_own_block filter_absent)
  have "map (\<lambda>t'. filter (\<lambda>v. fst v = t') (ws @ concat vss)) ts
      = map (\<lambda>t'. filter (\<lambda>v. fst v = t') (concat vss)) ts"
  proof (rule map_cong[OF refl])
    fix t' assume "t' \<in> set ts"
    with Cons.prems have "t' \<noteq> t" by auto
    with Cons.hyps(1) show "filter (\<lambda>v. fst v = t') (ws @ concat vss) = filter (\<lambda>v. fst v = t') (concat vss)"
      by (simp add: filter_other_block)
  qed
  with head Cons show ?case by simp
qed

lemma views_ok_types: "list_all2 views_ok ts vss \<Longrightarrow>
   list_all2 (\<lambda>t ws. list_all (\<lambda>v. fst v = t) ws) ts vss"
  by (erule list_all2_mono) (auto simp: views_ok_def list_all_iff view_ok_type)

lemma distinct_resource_types: "distinct resource_types"
  by (simp add: resource_types_def)

lemma views_counts:
  assumes "list_all2 views_ok resource_types vss"
  shows "list_all (\<lambda>t. 5 \<le> length (filter (\<lambda>v. fst v = t) (concat vss))
           \<and> length (filter (\<lambda>v. fst v = t) (concat vss)) \<le> 15) resource_types"
proof -
  let ?f = "\<lambda>t. filter (\<lambda>v. fst v = t) (concat vss)"
  from filter_blocks[OF views_ok_types[OF assms] distinct_resource_types]
  have "list_all2 views_ok resource_types (map ?f resource_types)" using assms by simp
  hence "list_all (\<lambda>t. views_ok t (?f t)) resource_types"
    by (simp add: list_all2_map2 list_all2_same list_all_iff)
  thus ?thesis by (simp add: views_ok_def list_all_iff)
qed

lemma views_all:
  assumes "list_all2 views_ok ts vss"
  shows "list_all (\<lambda>v. fst v \<in> set ts \<and> view_ok (fst v) v) (concat vss)"
  using assms
proof (induction rule: list_all2_induct)
  case Nil
  then show ?case by simp
next
  case (Cons t ts ws vss)
  have "fst v \<in> set (t # ts) \<and> view_ok (fst v) v" if "view_ok t v" for v
    using that view_ok_type[OF that] by simp
  with Cons.hyps(1) have "list_all (\<lambda>v. fst v \<in> set (t # ts) \<and> view_ok (fst v) v) ws"
    by (simp add: views_ok_def list_all_iff)
  moreover from Cons.IH have "list_all (\<lambda>v. fst v \<in> set (t # ts) \<and> view_ok (fst v) v) (concat vss)"
    by (auto simp: list_all_iff)
  ultimately show ?case by simp
qed

lemma gsd_views:
  "\<exists>d g' ms r1 r2 r3 rs vss. generate_sample_data L g = Inr (d, g')
     \<and> d = report ms r1 r2 r3 rs (concat vss)
     \<and> map resource_view rs = map Some (concat vss)
     \<and> list_all2 views_ok resource_types vss"
  using gsd_report[of L g] unfolding report_ok_def by blast


lemma resource_view_dict: "resource_view r = Some v \<Longrightarrow> is_dict r"
  by (cases r) (auto simp: resource_view_def)

lemma views_dicts: "map resource_view rs = map Some vs \<Longrightarrow> list_all is_dict rs"
proof (induction rs arbitrary: vs)
  case Nil
  then show ?case by simp
next
  case (Cons r rs)
  then obtain v vs' where "vs = v # vs'" "resource_view r = Some v" "map resource_view rs = map Some vs'"
    by (cases vs) auto
  with Cons.IH[of vs'] resource_view_dict[of r v] show ?case by simp
qed


lemma main_result:
  "generate_sample_data L g = Inr (d, g') \<Longrightarrow>
   main L fs g =
     (if open_fails fs output_file \<or> write_fails fs output_file (json_dumps L d) then Inl OSError
      else Inr (fs\<lparr>files := AList.update output_file (json_dumps L d) (files fs),
                  printed := printed fs @ [''Sample data written to '' @ output_file]\<rparr>))"
  by (simp add: main_def Let_def output_file_def)

lemma period_sums_zero:
  "list_all (\<lambda>v. snd v = [0, 0, 0, 0, 0]) ws \<Longrightarrow> period_sums ws = [0, 0, 0, 0, 0]"
  by (induction ws) (auto simp: period_sums_def)

lemma period_sums_filter:
  assumes "list_all (\<lambda>v. snd v = [0, 0, 0, 0, 0]) (filter P vs)"
  shows "period_sums (filter (\<lambda>v. \<not> P v) vs) = period_sums vs"
proof -
  have "sum_list (map (\<lambda>v. snd v ! i) (filter (\<lambda>v. \<not> P v) vs)) = sum_list (map (\<lambda>v. snd v ! i) vs)"
    if "i < 5" for i :: nat
  proof (rule sum_list_map_filter)
    fix v assume "v \<in> set vs" "\<not> \<not> P v"
    hence "v \<in> set (filter P vs)" by simp
    with assms[unfolded list_all_iff] have "snd v = [0, 0, 0, 0, 0]" by blast
    with that show "snd v ! i = 0" by (auto simp: nth_Cons' )
  qed
  thus ?thesis by (simp add: period_sums_def)
qed

lemma views_iam:
  assumes "list_all2 views_ok resource_types vss"
  shows "list_all (\<lambda>v. snd v = [0, 0, 0, 0, 0]) (filter is_iam (concat vss))"
proof -
  have "snd v = [0, 0, 0, 0, 0]" if "view_ok (fst v) v" "is_iam v" for v
    using view_ok_iam[OF that(1)] that(2) by (simp add: is_iam_def)
  with views_all[OF assms, unfolded list_all_iff] show ?thesis
    by (simp only: list_all_iff set_filter) blast
qed



lemma length_filter_two:
  "a \<noteq> b \<Longrightarrow> length (filter (\<lambda>v. fst v = a) xs) + length (filter (\<lambda>v. fst v = b) xs)
     = length (filter (\<lambda>v. fst v = a \<or> fst v = b) xs)"
  by (induction xs) auto



section \<open>The claims\<close>

text \<open>
  C1.  In every run, every resource of \<^verbatim>\<open>UnusedResources\<close> has a type and five float
  costs (its view), and \<^verbatim>\<open>CostBreakdown\<close> is the list of one entry per type present among
  the resources, in the order of first occurrence: the entry of a type holds, for each of
  hourly, daily, monthly, yearly and lifetime, the sum of that period's cost over the
  resources of that type.  Floats are rationals here, so the sums are exact.
\<close>

theorem cost_breakdown_sums:
  "\<exists>d g' rs vs. generate_sample_data L g = Inr (d, g')
     \<and> getitem d ''UnusedResources'' = Inr (PList rs)
     \<and> map resource_view rs = map Some vs
     \<and> getitem d ''CostBreakdown'' = Inr (PList (map (breakdown_entry vs) (present_types vs)))
     \<and> distinct (present_types vs)
     \<and> set (present_types vs) = set (map fst vs)"
proof -
  from gsd_views[of L g] obtain d g' ms r1 r2 r3 rs vss where
    "generate_sample_data L g = Inr (d, g')" "d = report ms r1 r2 r3 rs (concat vss)"
    "map resource_view rs = map Some (concat vss)" by blast
  thus ?thesis
    by (intro exI[where x = d] exI[where x = g'] exI[where x = rs] exI[where x = "concat vss"])
      (simp add: report_items distinct_present_types set_present_types)
qed

text \<open>
  C2.  In every run, \<^verbatim>\<open>TotalCosts\<close> holds, for each of hourly, daily, monthly, yearly and
  lifetime, the sum of that period's cost over all resources of \<^verbatim>\<open>UnusedResources\<close>.
\<close>

theorem total_costs_sums:
  "\<exists>d g' rs vs. generate_sample_data L g = Inr (d, g')
     \<and> getitem d ''UnusedResources'' = Inr (PList rs)
     \<and> map resource_view rs = map Some vs
     \<and> getitem d ''TotalCosts'' = Inr (costs_dict (period_sums vs))"
proof -
  from gsd_views[of L g] obtain d g' ms r1 r2 r3 rs vss where
    "generate_sample_data L g = Inr (d, g')" "d = report ms r1 r2 r3 rs (concat vss)"
    "map resource_view rs = map Some (concat vss)" by blast
  thus ?thesis
    by (intro exI[where x = d] exI[where x = g'] exI[where x = rs] exI[where x = "concat vss"])
      (simp add: report_items)
qed

text \<open>
  C3.  In every run, \<^verbatim>\<open>ScanMetrics.TotalResources\<close> of the returned document is the
  length of its \<^verbatim>\<open>UnusedResources\<close> list.
\<close>

theorem total_resources_is_length:
  "\<exists>d g' sm rs. generate_sample_data L g = Inr (d, g')
     \<and> getitem d ''ScanMetrics'' = Inr sm
     \<and> getitem sm ''TotalResources'' = Inr (PInt (int (length rs)))
     \<and> getitem d ''UnusedResources'' = Inr (PList rs)"
proof -
  from gsd_views[of L g] obtain d g' ms r1 r2 r3 rs vss where
    "generate_sample_data L g = Inr (d, g')" "d = report ms r1 r2 r3 rs (concat vss)" by blast
  thus ?thesis
    by (intro exI[where x = d] exI[where x = g']
        exI[where x = "metrics_dict (PInt (int (length rs))) ms"] exI[where x = rs])
      (simp add: report_items metrics_dict_items)
qed

text \<open>
  C4.  In every run, the keys of the returned document are exactly \<^verbatim>\<open>ScanMetrics\<close>,
  \<^verbatim>\<open>AccountsAndRegions\<close>, \<^verbatim>\<open>AccountNames\<close>, \<^verbatim>\<open>UnusedResources\<close>, \<^verbatim>\<open>CostBreakdown\<close> and
  \<^verbatim>\<open>TotalCosts\<close>, in this order; \<^verbatim>\<open>UnusedResources\<close> is a list of dicts; and \<^verbatim>\<open>main\<close>,
  unless opening or writing fails, stores the serialisation of this one document in the one
  file \<^verbatim>\<open>examples/sample_scan_data.json\<close> and prints one line.
\<close>

theorem report_top_level_fields:
  "\<exists>d g' rs. generate_sample_data L g = Inr (d, g')
     \<and> dict_keys d = Inr [''ScanMetrics'', ''AccountsAndRegions'', ''AccountNames'',
          ''UnusedResources'', ''CostBreakdown'', ''TotalCosts'']
     \<and> getitem d ''UnusedResources'' = Inr (PList rs)
     \<and> list_all is_dict rs
     \<and> main L fs g =
         (if open_fails fs output_file \<or> write_fails fs output_file (json_dumps L d) then Inl OSError
          else Inr (fs\<lparr>files := AList.update output_file (json_dumps L d) (files fs),
                      printed := printed fs @ [''Sample data written to '' @ output_file]\<rparr>))"
proof -
  from gsd_views[of L g] obtain d g' ms r1 r2 r3 rs vss where
    run: "generate_sample_data L g = Inr (d, g')" and d: "d = report ms r1 r2 r3 rs (concat vss)"
    and views: "map resource_view rs = map Some (concat vss)" by blast
  from main_result[OF run, of fs] views_dicts[OF views] run d show ?thesis
    by (intro exI[where x = d] exI[where x = g'] exI[where x = rs])
      (simp add: report_items report_keys)
qed

text \<open>
  C5.  The claim that \<^verbatim>\<open>ScanMetrics.ResourcesByType\<close> maps each type present to its number
  of resources fails on the code.  In every run, \<^verbatim>\<open>ResourcesByType\<close> of the returned
  document has no entry for any of the ten catalog types, although each of them has at
  least five resources in \<^verbatim>\<open>UnusedResources\<close>: the counts gathered in the loop are
  overwritten by \<^verbatim>\<open>data["ScanMetrics"].update(scan_metrics)\<close>.
\<close>

theorem counts_by_type_lost:
  "\<exists>d g' sm by_type rs vs. generate_sample_data L g = Inr (d, g')
     \<and> getitem d ''ScanMetrics'' = Inr sm
     \<and> getitem sm ''ResourcesByType'' = Inr by_type
     \<and> list_all (\<lambda>t. getitem by_type t = Inl KeyError) resource_types
     \<and> getitem d ''UnusedResources'' = Inr (PList rs)
     \<and> map resource_view rs = map Some vs
     \<and> list_all (\<lambda>t. 5 \<le> length (filter (\<lambda>v. fst v = t) vs)) resource_types"
proof -
  from gsd_views[of L g] obtain d g' ms r1 r2 r3 rs vss where
    run: "generate_sample_data L g = Inr (d, g')" and d: "d = report ms r1 r2 r3 rs (concat vss)"
    and views: "map resource_view rs = map Some (concat vss)"
    and blocks: "list_all2 views_ok resource_types vss" by blast
  have "list_all (\<lambda>t. 5 \<le> length (filter (\<lambda>v. fst v = t) (concat vss))) resource_types"
    by (rule list.pred_mono_strong[OF views_counts[OF blocks]]) simp
  moreover have "list_all (\<lambda>t. getitem (PDict []) t = Inl KeyError) resource_types"
    by (simp add: list_all_iff)
  ultimately show ?thesis using run d views
    by (intro exI[where x = d] exI[where x = g']
        exI[where x = "metrics_dict (PInt (int (length rs))) ms"] exI[where x = "PDict []"]
        exI[where x = rs] exI[where x = "concat vss"])
      (simp add: report_items metrics_dict_items)
qed



text \<open>
  C8.  In every run, \<^verbatim>\<open>ScanMetrics.ResourcesByType\<close> of the returned document is the empty
  dict.
\<close>

theorem resources_by_type_empty:
  "\<exists>d g' sm. generate_sample_data L g = Inr (d, g')
     \<and> getitem d ''ScanMetrics'' = Inr sm
     \<and> getitem sm ''ResourcesByType'' = Inr (PDict [])"
proof -
  from gsd_views[of L g] obtain d g' ms r1 r2 r3 rs vss where
    "generate_sample_data L g = Inr (d, g')" "d = report ms r1 r2 r3 rs (concat vss)" by blast
  thus ?thesis
    by (intro exI[where x = d] exI[where x = g']
        exI[where x = "metrics_dict (PInt (int (length rs))) ms"])
      (simp add: report_items metrics_dict_items)
qed

text \<open>
  C9.  For a resource of type IAM User or IAM Role, whatever its details,
  \<^verbatim>\<open>calculate_resource_costs\<close> returns the five cost fields all equal to 0.0 (no branch
  handles these types).  In every run the resources of these two types (at least ten) have
  all five costs 0, \<^verbatim>\<open>TotalCosts\<close> is the sum over the other resources alone, and the
  cost-breakdown entries of the two types are 0 in every period.
\<close>

theorem iam_costs_zero:
  "calculate_resource_costs L ''IAM User'' details g = Inr (zero_costs, snd (draw g))
   \<and> calculate_resource_costs L ''IAM Role'' details g = Inr (zero_costs, snd (draw g))
   \<and> (\<exists>d g' rs vs. generate_sample_data L g = Inr (d, g')
        \<and> getitem d ''UnusedResources'' = Inr (PList rs)
        \<and> map resource_view rs = map Some vs
        \<and> list_all (\<lambda>v. snd v = [0, 0, 0, 0, 0]) (filter is_iam vs)
        \<and> 10 \<le> length (filter is_iam vs)
        \<and> getitem d ''TotalCosts'' = Inr (costs_dict (period_sums (filter (\<lambda>v. \<not> is_iam v) vs)))
        \<and> breakdown_entry vs ''IAM User''
            = PDict ((''type'', PStr ''IAM User'') # zip periods (map PFloat [0, 0, 0, 0, 0]))
        \<and> breakdown_entry vs ''IAM Role''
            = PDict ((''type'', PStr ''IAM Role'') # zip periods (map PFloat [0, 0, 0, 0, 0])))"
proof -
  have calc: "calculate_resource_costs L ''IAM User'' details g = Inr (zero_costs, snd (draw g))"
    "calculate_resource_costs L ''IAM Role'' details g = Inr (zero_costs, snd (draw g))"
    by (simp_all add: calculate_resource_costs_def type_costs_def zero_costs_def bindG_def liftG_def
        returnG_def assign_mul_def bindE_def py_mul_def randint_def split: prod.split)
  from gsd_views[of L g] obtain d g' ms r1 r2 r3 rs vss where
    run: "generate_sample_data L g = Inr (d, g')" and d: "d = report ms r1 r2 r3 rs (concat vss)"
    and views: "map resource_view rs = map Some (concat vss)"
    and blocks: "list_all2 views_ok resource_types vss" by blast
  let ?vs = "concat vss"
  note zero = views_iam[OF blocks]
  have sub: "list_all (\<lambda>v. snd v = [0, 0, 0, 0, 0]) (filter (\<lambda>v. fst v = t) ?vs)"
    if "t = ''IAM User'' \<or> t = ''IAM Role''" for t
    using zero[unfolded list_all_iff] that
    by (simp only: list_all_iff set_filter is_iam_def) blast
  have user: "period_sums (filter (\<lambda>v. fst v = ''IAM User'') ?vs) = [0, 0, 0, 0, 0]"
    by (rule period_sums_zero[OF sub]) simp
  have role: "period_sums (filter (\<lambda>v. fst v = ''IAM Role'') ?vs) = [0, 0, 0, 0, 0]"
    by (rule period_sums_zero[OF sub]) simp
  from views_counts[OF blocks]
  have five: "5 \<le> length (filter (\<lambda>v. fst v = ''IAM User'') ?vs)"
    "5 \<le> length (filter (\<lambda>v. fst v = ''IAM Role'') ?vs)"
    by (simp_all add: resource_types_def)
  have "length (filter (\<lambda>v. fst v = ''IAM User'') ?vs) + length (filter (\<lambda>v. fst v = ''IAM Role'') ?vs)
      = length (filter is_iam ?vs)"
    unfolding is_iam_def by (rule length_filter_two) simp
  with five have ten: "10 \<le> length (filter is_iam ?vs)" by linarith
  have gsd: "\<exists>d g' rs vs. generate_sample_data L g = Inr (d, g')
        \<and> getitem d ''UnusedResources'' = Inr (PList rs)
        \<and> map resource_view rs = map Some vs
        \<and> list_all (\<lambda>v. snd v = [0, 0, 0, 0, 0]) (filter is_iam vs)
        \<and> 10 \<le> length (filter is_iam vs)
        \<and> getitem d ''TotalCosts'' = Inr (costs_dict (period_sums (filter (\<lambda>v. \<not> is_iam v) vs)))
        \<and> breakdown_entry vs ''IAM User''
            = PDict ((''type'', PStr ''IAM User'') # zip periods (map PFloat [0, 0, 0, 0, 0]))
        \<and> breakdown_entry vs ''IAM Role''
            = PDict ((''type'', PStr ''IAM Role'') # zip periods (map PFloat [0, 0, 0, 0, 0]))"
    using run d views zero ten period_sums_filter[OF zero] user role
    by (intro exI[where x = d] exI[where x = g'] exI[where x = rs] exI[where x = ?vs])
      (simp add: report_items breakdown_entry_def)
  from calc gsd show ?thesis by blast
qed


end
